theory Spec2Isabelle
  imports Complex_Main
begin

section \<open>Python values, exceptions and outcomes\<close>

text \<open>
  The development embeds the class \<^verbatim>\<open>FuelPin\<close> of
  \<^verbatim>\<open>scarabee/reseau/fuel_pin.py\<close>. Python floats are read as the real numbers they
  denote (rounding is not modelled), Python integers as \<open>int\<close> or, for loop counters and
  region identifiers, as \<open>nat\<close>. An exception is a value of \<open>error\<close>.
\<close>

datatype error = ValueError | RuntimeError | IndexError | ZeroDivisionError | TypeError

text \<open>
  A method mutates the pin it is called on, so it may raise after some of its writes have
  happened. Its result therefore carries the pin as the call leaves it in both cases:
  \<open>Returned v s\<close> is a normal return of \<open>v\<close>, \<open>Raised e s\<close> an exception \<open>e\<close>.
\<close>

datatype ('r, 's) outcome = Returned 'r 's | Raised error 's

fun state_of :: "('r, 's) outcome \<Rightarrow> 's" where
  "state_of (Returned v s) = s"
| "state_of (Raised e s) = s"

fun raised :: "('r, 's) outcome \<Rightarrow> error option" where
  "raised (Returned v s) = None"
| "raised (Raised e s) = Some e"

text \<open>
  \<^verbatim>\<open>xs[i]\<close> for a Python integer \<open>i\<close>: a negative index counts from the end, and an
  index outside the list raises \<^verbatim>\<open>IndexError\<close>.
\<close>

definition py_index :: "'a list \<Rightarrow> int \<Rightarrow> error + 'a" where
  "py_index xs i =
     (if 0 \<le> i \<and> i < int (length xs) then Inr (xs ! nat i)
      else if i < 0 \<and> - int (length xs) \<le> i then Inr (xs ! nat (int (length xs) + i))
      else Inl IndexError)"

text \<open>\<^verbatim>\<open>xs[i] = v\<close> with the same reading of the index.\<close>

definition py_store :: "'a list \<Rightarrow> int \<Rightarrow> 'a \<Rightarrow> error + 'a list" where
  "py_store xs i v =
     (if 0 \<le> i \<and> i < int (length xs) then Inr (xs[nat i := v])
      else if i < 0 \<and> - int (length xs) \<le> i then Inr (xs[nat (int (length xs) + i) := v])
      else Inl IndexError)"

text \<open>\<^verbatim>\<open>range(n)\<close> for a Python integer \<open>n\<close> (empty when \<open>n \<le> 0\<close>).\<close>

definition py_range :: "int \<Rightarrow> nat list" where
  "py_range n = [0 ..< nat n]"

text \<open>
  A \<^verbatim>\<open>for\<close> loop whose body mutates the state: the first exception ends the loop and
  keeps the state reached so far.
\<close>

fun for_each :: "('a \<Rightarrow> 's \<Rightarrow> (unit, 's) outcome) \<Rightarrow> 'a list \<Rightarrow> 's \<Rightarrow> (unit, 's) outcome" where
  "for_each body [] s = Returned () s"
| "for_each body (x # xs) s =
     (case body x s of
        Returned u s' \<Rightarrow> for_each body xs s'
      | Raised e s' \<Rightarrow> Raised e s')"

section \<open>External collaborators\<close>

text \<open>
  The compiled module \<^verbatim>\<open>_scarabee\<close> (materials, cross sections, depletion matrices,
  pin cells, the transport solver) is not part of the Python source. What the pin calls
  from it is a parameter of the model. A \<^verbatim>\<open>CrossSection\<close> has the attribute
  \<^verbatim>\<open>name\<close> the pin reads and writes; the rest of it is opaque.
\<close>

record 'd CrossSection =
  name :: string
  xs_data :: 'd

text \<open>
  The self-shielding kernels with the nuclear data library already supplied, and
  \<^verbatim>\<open>old.set(new)\<close>, which overwrites a cross section in place.
\<close>

record ('mat, 'd) xs_lib =
  carlvik_xs :: "'mat \<Rightarrow> real \<Rightarrow> real \<Rightarrow> 'd CrossSection"
  ring_carlvik_xs :: "'mat \<Rightarrow> real \<Rightarrow> real \<Rightarrow> real \<Rightarrow> real \<Rightarrow> 'd CrossSection"
  roman_xs :: "'mat \<Rightarrow> real \<Rightarrow> real \<Rightarrow> 'd CrossSection"
  xs_set :: "'d CrossSection \<Rightarrow> 'd CrossSection \<Rightarrow> 'd CrossSection"

text \<open>
  The depletion engine with chain and library supplied: \<^verbatim>\<open>build_depletion_matrix\<close>,
  a matrix's \<^verbatim>\<open>size\<close> and \<^verbatim>\<open>nuclides\<close>, and \<^verbatim>\<open>M.exponential_product(N)\<close>, which
  overwrites the array \<open>N\<close> and is modelled as returning the new array. Of a material the
  pin uses \<^verbatim>\<open>atom_density\<close>, \<^verbatim>\<open>temperature\<close>, \<^verbatim>\<open>clear_all_micro_xs_data\<close> and the
  constructor \<^verbatim>\<open>Material(composition, temperature, ndl)\<close>. A
  \<^verbatim>\<open>MaterialComposition\<close> is the list of the \<^verbatim>\<open>add_nuclide\<close> calls made on it.
  The arithmetic of matrices belongs to the engine and nothing is assumed about it:
  \<open>mat_rmul c A\<close> is \<^verbatim>\<open>c * A\<close>, \<open>mat_add A B\<close> is \<^verbatim>\<open>A + B\<close>, and \<open>mat_imul A c\<close> and
  \<open>mat_idiv A c\<close> are what the in-place \<^verbatim>\<open>A *= c\<close> and \<^verbatim>\<open>A /= c\<close> leave in \<open>A\<close>.
\<close>

record ('mat, 'm) depletion_lib =
  build_depletion_matrix :: "'mat \<Rightarrow> real list \<Rightarrow> 'm"
  matrix_size :: "'m \<Rightarrow> nat"
  matrix_nuclides :: "'m \<Rightarrow> string list"
  exponential_product :: "'m \<Rightarrow> real list \<Rightarrow> real list"
  atom_density :: "'mat \<Rightarrow> string \<Rightarrow> real"
  temperature :: "'mat \<Rightarrow> real"
  clear_all_micro_xs_data :: "'mat \<Rightarrow> 'mat"
  Material :: "(string \<times> real) list \<Rightarrow> real \<Rightarrow> 'mat"
  mat_rmul :: "real \<Rightarrow> 'm \<Rightarrow> 'm"
  mat_add :: "'m \<Rightarrow> 'm \<Rightarrow> 'm"
  mat_imul :: "'m \<Rightarrow> real \<Rightarrow> 'm"
  mat_idiv :: "'m \<Rightarrow> real \<Rightarrow> 'm"

section \<open>The fuel pin\<close>

text \<open>
  The attributes of a \<^verbatim>\<open>FuelPin\<close> that the modelled methods read or write; the
  attribute \<^verbatim>\<open>self._x\<close> is the field \<open>self_x\<close>. The parallel per-ring lists are kept
  as the class has them. Attributes used only by the Dancoff geometry
  (\<^verbatim>\<open>_*_dancoff_xs\<close>, \<^verbatim>\<open>_*_dancoff_fsr_ids\<close>, \<^verbatim>\<open>_*_dancoff_fsr_inds\<close>), the
  resolved indices of gap, clad and moderator, and
  \<^verbatim>\<open>_initial_fissionable_linear_mass\<close> are left out.
\<close>

record ('mat, 'd, 'm) FuelPin =
  self_fuel_radius :: real
  self_num_fuel_rings :: int
  self_gap :: "'mat option"
  self_gap_radius :: "real option"
  self_clad :: 'mat
  self_clad_radius :: real
  self_fuel_dancoff_corrections :: "real list"
  self_clad_dancoff_corrections :: "real list"
  self_fuel_ring_fsr_ids :: "nat list list"
  self_gap_fsr_ids :: "nat list"
  self_clad_fsr_ids :: "nat list"
  self_mod_fsr_ids :: "nat list"
  self_fuel_ring_fsr_inds :: "nat list list"
  self_fuel_radii :: "real list"
  self_fuel_ring_materials :: "'mat list list"
  self_fuel_ring_flux_spectra :: "real list list"
  self_fuel_ring_prev_dep_mats :: "'m option list"
  self_fuel_ring_current_dep_mats :: "'m option list"
  self_fuel_ring_xs :: "'d CrossSection list"
  self_gap_xs :: "'d CrossSection option"
  self_clad_xs :: "'d CrossSection option"

subsection \<open>Properties\<close>

definition fuel_radius :: "('mat, 'd, 'm) FuelPin \<Rightarrow> real" where
  "fuel_radius self = self_fuel_radius self"

definition num_fuel_rings :: "('mat, 'd, 'm) FuelPin \<Rightarrow> int" where
  "num_fuel_rings self = self_num_fuel_rings self"

definition fuel_ring_materials :: "('mat, 'd, 'm) FuelPin \<Rightarrow> 'mat list list" where
  "fuel_ring_materials self = self_fuel_ring_materials self"

definition fuel_ring_flux_spectra :: "('mat, 'd, 'm) FuelPin \<Rightarrow> 'mat list list" where
  "fuel_ring_flux_spectra self = self_fuel_ring_materials self"

definition fuel_dancoff_corrections :: "('mat, 'd, 'm) FuelPin \<Rightarrow> real list" where
  "fuel_dancoff_corrections self = self_fuel_dancoff_corrections self"

definition gap :: "('mat, 'd, 'm) FuelPin \<Rightarrow> 'mat option" where
  "gap self = self_gap self"

definition gap_radius :: "('mat, 'd, 'm) FuelPin \<Rightarrow> real option" where
  "gap_radius self = self_gap_radius self"

definition clad :: "('mat, 'd, 'm) FuelPin \<Rightarrow> 'mat" where
  "clad self = self_clad self"

definition clad_radius :: "('mat, 'd, 'm) FuelPin \<Rightarrow> real" where
  "clad_radius self = self_clad_radius self"

definition clad_dancoff_corrections :: "('mat, 'd, 'm) FuelPin \<Rightarrow> real list" where
  "clad_dancoff_corrections self = self_clad_dancoff_corrections self"

subsection \<open>Dancoff correction history\<close>

definition append_fuel_dancoff_correction ::
  "('mat, 'd, 'm) FuelPin \<Rightarrow> real \<Rightarrow> (unit, ('mat, 'd, 'm) FuelPin) outcome" where
  "append_fuel_dancoff_correction self C =
     (if C < 0 \<or> C > 1 then Raised ValueError self
      else Returned ()
        (self\<lparr>self_fuel_dancoff_corrections := self_fuel_dancoff_corrections self @ [C]\<rparr>))"

definition append_clad_dancoff_correction ::
  "('mat, 'd, 'm) FuelPin \<Rightarrow> real \<Rightarrow> (unit, ('mat, 'd, 'm) FuelPin) outcome" where
  "append_clad_dancoff_correction self C =
     (if C < 0 \<or> C > 1 then Raised ValueError self
      else Returned ()
        (self\<lparr>self_clad_dancoff_corrections := self_clad_dancoff_corrections self @ [C]\<rparr>))"

subsection \<open>Flux spectra\<close>

text \<open>
  \<^verbatim>\<open>obtain_flux_spectra\<close>: the solver's \<^verbatim>\<open>homogenize_flux_spectrum\<close> is the
  parameter \<open>homogenize\<close>. The right-hand side is evaluated before the store.
\<close>

definition obtain_ring_flux_spectrum ::
  "(nat list \<Rightarrow> real list) \<Rightarrow> nat \<Rightarrow> ('mat, 'd, 'm) FuelPin \<Rightarrow> (unit, ('mat, 'd, 'm) FuelPin) outcome" where
  "obtain_ring_flux_spectrum homogenize r self =
     (case py_index (self_fuel_ring_fsr_inds self) (int r) of
        Inl e \<Rightarrow> Raised e self
      | Inr inds \<Rightarrow>
          (case py_store (self_fuel_ring_flux_spectra self) (int r) (homogenize inds) of
             Inl e \<Rightarrow> Raised e self
           | Inr spectra \<Rightarrow> Returned () (self\<lparr>self_fuel_ring_flux_spectra := spectra\<rparr>)))"

definition obtain_flux_spectra ::
  "(nat list \<Rightarrow> real list) \<Rightarrow> ('mat, 'd, 'm) FuelPin \<Rightarrow> (unit, ('mat, 'd, 'm) FuelPin) outcome" where
  "obtain_flux_spectra homogenize self =
     for_each (obtain_ring_flux_spectrum homogenize) (py_range (num_fuel_rings self)) self"

subsection \<open>Self-shielded cross sections\<close>

text \<open>
  An expression that may raise, evaluated in state \<open>s\<close>: the exception leaves the state
  as it is, a value goes on to the rest of the method.
\<close>

definition py_eval :: "error + 'a \<Rightarrow> 's \<Rightarrow> ('a \<Rightarrow> ('r, 's) outcome) \<Rightarrow> ('r, 's) outcome" where
  "py_eval x s k = (case x of Inl e \<Rightarrow> Raised e s | Inr v \<Rightarrow> k v)"

text \<open>Float division: Python raises \<^verbatim>\<open>ZeroDivisionError\<close> on a zero divisor.\<close>

definition py_div :: "real \<Rightarrow> real \<Rightarrow> error + real" where
  "py_div a b = (if b = 0 then Inl ZeroDivisionError else Inr (a / b))"

text \<open>\<^verbatim>\<open>if xs.name == "": xs.name = n\<close>\<close>

definition name_default :: "string \<Rightarrow> 'd CrossSection \<Rightarrow> 'd CrossSection" where
  "name_default n xs = (if name xs = [] then xs\<lparr>name := n\<rparr> else xs)"

text \<open>
  \<^verbatim>\<open>set_fuel_xs_for_depletion_step\<close>, first construction, one pass of the loop over the
  rings of a multi-ring pin.
\<close>

definition create_ring_xs ::
  "('mat, 'd) xs_lib \<Rightarrow> int \<Rightarrow> nat \<Rightarrow> ('mat, 'd, 'm) FuelPin \<Rightarrow> (unit, ('mat, 'd, 'm) FuelPin) outcome" where
  "create_ring_xs L t ri self =
     py_eval (if ri > 0 then py_index (self_fuel_radii self) (int ri - 1) else Inr 0) self (\<lambda>Rin.
     py_eval (py_index (self_fuel_radii self) (int ri)) self (\<lambda>Rout.
     py_eval (py_index (self_fuel_ring_materials self) (int ri)) self (\<lambda>mats.
     py_eval (py_index mats t) self (\<lambda>mat.
     py_eval (py_index (self_fuel_dancoff_corrections self) t) self (\<lambda>C.
       Returned () (self\<lparr>self_fuel_ring_xs := self_fuel_ring_xs self @
         [name_default ''Fuel'' (ring_carlvik_xs L mat C (fuel_radius self) Rin Rout)]\<rparr>))))))"

text \<open>The same pass when the cross sections exist and are overwritten in place.\<close>

definition reset_ring_xs ::
  "('mat, 'd) xs_lib \<Rightarrow> int \<Rightarrow> nat \<Rightarrow> ('mat, 'd, 'm) FuelPin \<Rightarrow> (unit, ('mat, 'd, 'm) FuelPin) outcome" where
  "reset_ring_xs L t ri self =
     py_eval (if ri > 0 then py_index (self_fuel_radii self) (int ri - 1) else Inr 0) self (\<lambda>Rin.
     py_eval (py_index (self_fuel_radii self) (int ri)) self (\<lambda>Rout.
     py_eval (py_index (self_fuel_ring_xs self) (int ri)) self (\<lambda>old.
     py_eval (py_index (self_fuel_ring_materials self) (int ri)) self (\<lambda>mats.
     py_eval (py_index mats t) self (\<lambda>mat.
     py_eval (py_index (self_fuel_dancoff_corrections self) t) self (\<lambda>C.
       Returned () (self\<lparr>self_fuel_ring_xs := (self_fuel_ring_xs self)
         [ri := name_default ''Fuel''
            (xs_set L old (ring_carlvik_xs L mat C (fuel_radius self) Rin Rout))]\<rparr>)))))))"

definition set_fuel_xs_for_depletion_step ::
  "('mat, 'd) xs_lib \<Rightarrow> int \<Rightarrow> ('mat, 'd, 'm) FuelPin \<Rightarrow> (unit, ('mat, 'd, 'm) FuelPin) outcome" where
  "set_fuel_xs_for_depletion_step L t self =
     (if length (self_fuel_ring_xs self) = 0 then
        (if num_fuel_rings self = 1 then
           py_eval (py_div 1 (2 * fuel_radius self)) self (\<lambda>Ee.
           py_eval (py_index (self_fuel_ring_materials self) 0) self (\<lambda>mats.
           py_eval (py_index mats t) self (\<lambda>mat.
           py_eval (py_index (self_fuel_dancoff_corrections self) t) self (\<lambda>C.
             Returned () (self\<lparr>self_fuel_ring_xs := self_fuel_ring_xs self @
               [name_default ''Fuel'' (carlvik_xs L mat C Ee)]\<rparr>)))))
         else for_each (create_ring_xs L t) (py_range (num_fuel_rings self)) self)
      else if int (length (self_fuel_ring_xs self)) = num_fuel_rings self then
        (if num_fuel_rings self = 1 then
           py_eval (py_div 1 (2 * fuel_radius self)) self (\<lambda>Ee.
           py_eval (py_index (self_fuel_ring_xs self) 0) self (\<lambda>old.
           py_eval (py_index (self_fuel_ring_materials self) 0) self (\<lambda>mats.
           py_eval (py_index mats t) self (\<lambda>mat.
           py_eval (py_index (self_fuel_dancoff_corrections self) t) self (\<lambda>C.
             Returned () (self\<lparr>self_fuel_ring_xs := (self_fuel_ring_xs self)
               [0 := name_default ''Fuel'' (xs_set L old (carlvik_xs L mat C Ee))]\<rparr>))))))
         else for_each (reset_ring_xs L t) (py_range (num_fuel_rings self)) self)
      else Raised RuntimeError self)"

definition set_clad_xs_for_depletion_step ::
  "('mat, 'd) xs_lib \<Rightarrow> int \<Rightarrow> ('mat, 'd, 'm) FuelPin \<Rightarrow> (unit, ('mat, 'd, 'm) FuelPin) outcome" where
  "set_clad_xs_for_depletion_step L t self =
     py_eval (case gap_radius self of
                Some g \<Rightarrow> py_div 1 (2 * (clad_radius self - g))
              | None \<Rightarrow> py_div 1 (2 * (clad_radius self - fuel_radius self))) self (\<lambda>Ee.
     py_eval (py_index (self_clad_dancoff_corrections self) t) self (\<lambda>C.
       Returned () (self\<lparr>self_clad_xs := Some (name_default ''Clad''
         (case self_clad_xs self of
            None \<Rightarrow> roman_xs L (clad self) C Ee
          | Some old \<Rightarrow> xs_set L old (roman_xs L (clad self) C Ee)))\<rparr>)))"

subsection \<open>The transport cell and its regions\<close>

datatype PinCellType = Full | XN | XP | YN | YP | I | II | III | IV

text \<open>
  The geometry builder: the constructor \<^verbatim>\<open>PinCell(radii, xss, dx, dy, pintype)\<close> and
  \<^verbatim>\<open>cell.get_all_fsr_ids()\<close>, whose result the pin turns into a list. The list of radii
  holds \<^verbatim>\<open>self.gap_radius\<close> as the pin has it, so an entry may be \<^verbatim>\<open>None\<close>.
\<close>

record ('d, 'cell) geometry_lib =
  PinCell :: "real option list \<Rightarrow> 'd CrossSection list \<Rightarrow> real \<Rightarrow> real \<Rightarrow> PinCellType \<Rightarrow> 'cell"
  get_all_fsr_ids :: "'cell \<Rightarrow> nat list"

text \<open>\<^verbatim>\<open>_check_dx_dy\<close>: \<open>None\<close> when no check raises.\<close>

definition check_dx_dy ::
  "('mat, 'd, 'm) FuelPin \<Rightarrow> real \<Rightarrow> real \<Rightarrow> PinCellType \<Rightarrow> error option" where
  "check_dx_dy self dx dy pintype =
     (if pintype = Full then
        (if dx < 2 * clad_radius self then Some ValueError
         else if dy < 2 * clad_radius self then Some ValueError
         else None)
      else if pintype \<in> set [XN, XP] then
        (if dx < clad_radius self then Some ValueError
         else if dy < 2 * clad_radius self then Some ValueError
         else None)
      else if pintype \<in> set [YN, YP] then
        (if dy < clad_radius self then Some ValueError
         else if dx < 2 * clad_radius self then Some ValueError
         else None)
      else
        (if dx < clad_radius self then Some ValueError
         else if dy < clad_radius self then Some ValueError
         else None))"

text \<open>The radii and cross sections \<^verbatim>\<open>make_moc_cell\<close> hands to the cell constructor.\<close>

definition moc_cell_radii ::
  "('mat, 'd, 'm) FuelPin \<Rightarrow> real \<Rightarrow> real \<Rightarrow> PinCellType \<Rightarrow> real option list" where
  "moc_cell_radii self dx dy pintype =
     map Some (self_fuel_radii self)
     @ (if self_gap_xs self \<noteq> None then [gap_radius self] else [])
     @ [Some (clad_radius self)]
     @ (if pintype = Full \<and> min dx dy > 2 * clad_radius self then [Some (0.5 * min dx dy)]
        else if pintype \<in> set [XN, XP] \<and> dx > clad_radius self \<and> dy > 2 * clad_radius self
          then [Some (min dx (0.5 * dy))]
        else if pintype \<in> set [YN, YP] \<and> dy > clad_radius self \<and> dx > 2 * clad_radius self
          then [Some (min (0.5 * dx) dy)]
        else if dx > clad_radius self \<and> dy > clad_radius self then [Some (min dx dy)]
        else [])"

definition moc_cell_xss ::
  "('mat, 'd, 'm) FuelPin \<Rightarrow> 'd CrossSection \<Rightarrow> real \<Rightarrow> real \<Rightarrow> PinCellType
     \<Rightarrow> 'd CrossSection list" where
  "moc_cell_xss self moderator_xs dx dy pintype =
     self_fuel_ring_xs self
     @ (case self_gap_xs self of Some g \<Rightarrow> [g] | None \<Rightarrow> [])
     @ (case self_clad_xs self of Some c \<Rightarrow> [c] | None \<Rightarrow> [])
     @ (if pintype = Full \<and> min dx dy > 2 * clad_radius self then [moderator_xs]
        else if pintype \<in> set [XN, XP] \<and> dx > clad_radius self \<and> dy > 2 * clad_radius self
          then [moderator_xs]
        else if pintype \<in> set [YN, YP] \<and> dy > clad_radius self \<and> dx > 2 * clad_radius self
          then [moderator_xs]
        else if dx > clad_radius self \<and> dy > clad_radius self then [moderator_xs]
        else [])
     @ [moderator_xs]"

text \<open>The number of angular divisions \<^verbatim>\<open>NA\<close>.\<close>

definition angular_divisions :: "PinCellType \<Rightarrow> nat" where
  "angular_divisions pintype =
     (if pintype \<in> set [XN, XP, YN, YP] then 4
      else if pintype \<in> set [I, II, III, IV] then 2
      else 8)"

text \<open>
  The loops that hand out the sorted identifiers. Their state is the pin together with
  the running index \<^verbatim>\<open>I\<close> into \<^verbatim>\<open>cell_fsr_ids\<close>; each pass of an inner loop appends one
  identifier to a list of the pin and advances the index.
\<close>

definition append_ring_fsr_id ::
  "nat list \<Rightarrow> nat \<Rightarrow> nat \<Rightarrow> ('mat, 'd, 'm) FuelPin \<times> nat
     \<Rightarrow> (unit, ('mat, 'd, 'm) FuelPin \<times> nat) outcome" where
  "append_ring_fsr_id cell_fsr_ids r a st =
     (case st of (self, i) \<Rightarrow>
        py_eval (py_index (self_fuel_ring_fsr_ids self) (int r)) st (\<lambda>ring_ids.
        py_eval (py_index cell_fsr_ids (int i)) st (\<lambda>fsr.
          Returned () (self\<lparr>self_fuel_ring_fsr_ids :=
                         (self_fuel_ring_fsr_ids self)[r := ring_ids @ [fsr]]\<rparr>, i + 1))))"

definition append_gap_fsr_id ::
  "nat list \<Rightarrow> nat \<Rightarrow> ('mat, 'd, 'm) FuelPin \<times> nat
     \<Rightarrow> (unit, ('mat, 'd, 'm) FuelPin \<times> nat) outcome" where
  "append_gap_fsr_id cell_fsr_ids a st =
     (case st of (self, i) \<Rightarrow>
        py_eval (py_index cell_fsr_ids (int i)) st (\<lambda>fsr.
          Returned () (self\<lparr>self_gap_fsr_ids := self_gap_fsr_ids self @ [fsr]\<rparr>, i + 1)))"

definition append_clad_fsr_id ::
  "nat list \<Rightarrow> nat \<Rightarrow> ('mat, 'd, 'm) FuelPin \<times> nat
     \<Rightarrow> (unit, ('mat, 'd, 'm) FuelPin \<times> nat) outcome" where
  "append_clad_fsr_id cell_fsr_ids a st =
     (case st of (self, i) \<Rightarrow>
        py_eval (py_index cell_fsr_ids (int i)) st (\<lambda>fsr.
          Returned () (self\<lparr>self_clad_fsr_ids := self_clad_fsr_ids self @ [fsr]\<rparr>, i + 1)))"

text \<open>One statement after another: an exception skips what follows.\<close>

definition and_then :: "(unit, 's) outcome \<Rightarrow> ('s \<Rightarrow> ('r, 's) outcome) \<Rightarrow> ('r, 's) outcome" where
  "and_then x k = (case x of Returned u s \<Rightarrow> k s | Raised e s \<Rightarrow> Raised e s)"

definition assign_fsr_ids ::
  "nat list \<Rightarrow> nat \<Rightarrow> ('mat, 'd, 'm) FuelPin
     \<Rightarrow> (unit, ('mat, 'd, 'm) FuelPin \<times> nat) outcome" where
  "assign_fsr_ids cell_fsr_ids NA self =
     and_then (for_each (\<lambda>r. for_each (append_ring_fsr_id cell_fsr_ids r) [0 ..< NA])
                 (py_range (num_fuel_rings self)) (self, 0)) (\<lambda>st.
     and_then (if self_gap_xs (fst st) \<noteq> None
               then for_each (append_gap_fsr_id cell_fsr_ids) [0 ..< NA] st
               else Returned () st) (\<lambda>st.
     and_then (for_each (append_clad_fsr_id cell_fsr_ids) [0 ..< NA] st) (\<lambda>st.
       (case st of (self', i) \<Rightarrow>
          Returned () (self'\<lparr>self_mod_fsr_ids := drop i cell_fsr_ids\<rparr>, i)))))"

definition make_moc_cell ::
  "('d, 'cell) geometry_lib \<Rightarrow> 'd CrossSection \<Rightarrow> real \<Rightarrow> real \<Rightarrow> PinCellType
     \<Rightarrow> ('mat, 'd, 'm) FuelPin \<Rightarrow> ('cell, ('mat, 'd, 'm) FuelPin) outcome" where
  "make_moc_cell G moderator_xs dx dy pintype self =
     (if int (length (self_fuel_ring_xs self)) \<noteq> num_fuel_rings self then Raised RuntimeError self
      else if gap self \<noteq> None \<and> self_gap_xs self = None then Raised RuntimeError self
      else if self_clad_xs self = None then Raised RuntimeError self
      else case check_dx_dy self dx dy pintype of
        Some e \<Rightarrow> Raised e self
      | None \<Rightarrow>
          (let cell = PinCell G (moc_cell_radii self dx dy pintype)
                        (moc_cell_xss self moderator_xs dx dy pintype) dx dy pintype;
               cell_fsr_ids = sort (get_all_fsr_ids G cell)
           in case assign_fsr_ids cell_fsr_ids (angular_divisions pintype) self of
                Returned u st \<Rightarrow> Returned cell (fst st)
              | Raised e st \<Rightarrow> Raised e (fst st)))"

text \<open>
  Names for the statement about \<^verbatim>\<open>make_moc_cell\<close>: the cell it builds, the sorted
  identifiers of that cell, and the \<open>r\<close>-th block of \<open>NA\<close> sorted identifiers.
\<close>

definition moc_cell ::
  "('d, 'cell) geometry_lib \<Rightarrow> 'd CrossSection \<Rightarrow> real \<Rightarrow> real \<Rightarrow> PinCellType
     \<Rightarrow> ('mat, 'd, 'm) FuelPin \<Rightarrow> 'cell" where
  "moc_cell G moderator_xs dx dy pintype self =
     PinCell G (moc_cell_radii self dx dy pintype)
       (moc_cell_xss self moderator_xs dx dy pintype) dx dy pintype"

definition sorted_fsr_ids ::
  "('d, 'cell) geometry_lib \<Rightarrow> 'd CrossSection \<Rightarrow> real \<Rightarrow> real \<Rightarrow> PinCellType
     \<Rightarrow> ('mat, 'd, 'm) FuelPin \<Rightarrow> nat list" where
  "sorted_fsr_ids G moderator_xs dx dy pintype self =
     sort (get_all_fsr_ids G (moc_cell G moderator_xs dx dy pintype self))"

definition ring_block :: "nat list \<Rightarrow> nat \<Rightarrow> nat \<Rightarrow> nat list" where
  "ring_block ids NA r = take NA (drop (r * NA) ids)"

text \<open>
  The specification's conditions. The cross sections are built when the assembler has
  filled every slot. The footprint of the cell is too small when, along an axis, it is
  narrower than the cladding is wide inside the chosen split: the diameter where the
  split keeps the whole circle along that axis, the radius where it keeps half of it.
\<close>

definition xs_built :: "('mat, 'd, 'm) FuelPin \<Rightarrow> bool" where
  "xs_built self =
     (int (length (self_fuel_ring_xs self)) = num_fuel_rings self
      \<and> (gap self \<noteq> None \<longrightarrow> self_gap_xs self \<noteq> None)
      \<and> self_clad_xs self \<noteq> None)"

fun clad_extent_x :: "PinCellType \<Rightarrow> real" where
  "clad_extent_x Full = 2"
| "clad_extent_x YN = 2"
| "clad_extent_x YP = 2"
| "clad_extent_x pintype = 1"

fun clad_extent_y :: "PinCellType \<Rightarrow> real" where
  "clad_extent_y Full = 2"
| "clad_extent_y XN = 2"
| "clad_extent_y XP = 2"
| "clad_extent_y pintype = 1"

definition footprint_too_small ::
  "('mat, 'd, 'm) FuelPin \<Rightarrow> real \<Rightarrow> real \<Rightarrow> PinCellType \<Rightarrow> bool" where
  "footprint_too_small self dx dy pintype =
     (dx < clad_extent_x pintype * clad_radius self
      \<or> dy < clad_extent_y pintype * clad_radius self)"

text \<open>The number of radial regions the gap contributes: one if the pin has a gap.\<close>

definition gap_regions :: "('mat, 'd, 'm) FuelPin \<Rightarrow> nat" where
  "gap_regions self = (if gap self \<noteq> None then 1 else 0)"

subsection \<open>Depletion: predictor and corrector\<close>

text \<open>
  \<^verbatim>\<open>N = np.zeros(A.size)\<close> followed by
  \<^verbatim>\<open>for i, nuclide in enumerate(nuclides): N[i] = mat.atom_density(nuclide)\<close>.
  Writing past the end of the array raises \<^verbatim>\<open>IndexError\<close>.
\<close>

fun fill_densities :: "(string \<Rightarrow> real) \<Rightarrow> string list \<Rightarrow> nat \<Rightarrow> real list \<Rightarrow> error + real list" where
  "fill_densities density [] i N = Inr N"
| "fill_densities density (nuclide # rest) i N =
     (if i < length N then fill_densities density rest (Suc i) (N[i := density nuclide])
      else Inl IndexError)"

text \<open>
  The new composition:
  \<^verbatim>\<open>for i, nuclide in enumerate(nuclides): if N[i] > 0.0: new_mat_comp.add_nuclide(nuclide, N[i])\<close>.
\<close>

fun collect_positive ::
  "string list \<Rightarrow> nat \<Rightarrow> real list \<Rightarrow> (string \<times> real) list \<Rightarrow> error + (string \<times> real) list" where
  "collect_positive [] i N added = Inr added"
| "collect_positive (nuclide # rest) i N added =
     (if i < length N
      then collect_positive rest (Suc i) N (if N ! i > 0 then added @ [(nuclide, N ! i)] else added)
      else Inl IndexError)"

text \<open>
  The predictor for ring \<open>r\<close>, up to the choice of scheme. The material read is the last
  of the ring's list; \<^verbatim>\<open>clear_all_micro_xs_data\<close> mutates that object, so the list
  entry changes with it and the densities are read from the cleared object.
\<close>

definition predict_finish ::
  "('mat, 'm) depletion_lib \<Rightarrow> nat \<Rightarrow> string list \<Rightarrow> 'mat \<Rightarrow> real list
     \<Rightarrow> ('mat, 'd, 'm) FuelPin \<Rightarrow> (unit, ('mat, 'd, 'm) FuelPin) outcome" where
  "predict_finish E r nuclides mat N self =
     py_eval (collect_positive nuclides 0 N []) self (\<lambda>new_mat_comp.
     py_eval (py_index (self_fuel_ring_materials self) (int r)) self (\<lambda>mats.
       Returned () (self\<lparr>self_fuel_ring_materials := (self_fuel_ring_materials self)
         [r := mats @ [Material E new_mat_comp (temperature E mat)]]\<rparr>)))"

text \<open>
  CE/LI: \<^verbatim>\<open>A0 *= dt\<close> and \<^verbatim>\<open>A0 /= dt\<close> act on the matrix object that was stored as
  the ring's current matrix, so the stored matrix ends as the engine's quotient by \<open>dt\<close>
  of its product of \<open>A0\<close> with \<open>dt\<close>.
\<close>

definition predict_ce_li ::
  "('mat, 'm) depletion_lib \<Rightarrow> real \<Rightarrow> nat \<Rightarrow> 'm \<Rightarrow> string list \<Rightarrow> 'mat \<Rightarrow> real list
     \<Rightarrow> ('mat, 'd, 'm) FuelPin \<Rightarrow> (unit, ('mat, 'd, 'm) FuelPin) outcome" where
  "predict_ce_li E dt r A0 nuclides mat N self =
     (let A0' = mat_imul E A0 dt;
          N' = exponential_product E A0' N;
          A0'' = mat_idiv E A0' dt
      in predict_finish E r nuclides mat N'
           (self\<lparr>self_fuel_ring_current_dep_mats :=
              (self_fuel_ring_current_dep_mats self)[r := Some A0'']\<rparr>))"

definition predict_le_qi ::
  "('mat, 'm) depletion_lib \<Rightarrow> real \<Rightarrow> real \<Rightarrow> nat \<Rightarrow> 'm \<Rightarrow> 'm \<Rightarrow> string list \<Rightarrow> 'mat
     \<Rightarrow> real list \<Rightarrow> ('mat, 'd, 'm) FuelPin \<Rightarrow> (unit, ('mat, 'd, 'm) FuelPin) outcome" where
  "predict_le_qi E dt dtm1 r Am1 A0 nuclides mat N self =
     py_eval (py_div (- dt) (12 * dtm1)) self (\<lambda>a1.
     py_eval (py_div (6 * dtm1 + dt) (12 * dtm1)) self (\<lambda>a0.
     py_eval (py_div (- 5 * dt) (12 * dtm1)) self (\<lambda>b1.
     py_eval (py_div (6 * dtm1 + 5 * dt) (12 * dtm1)) self (\<lambda>b0.
       (let F1 = mat_imul E (mat_add E (mat_rmul E a1 Am1) (mat_rmul E a0 A0)) dt;
            F2 = mat_imul E (mat_add E (mat_rmul E b1 Am1) (mat_rmul E b0 A0)) dt;
            N' = exponential_product E F1 (exponential_product E F2 N)
        in predict_finish E r nuclides mat N' self)))))"

text \<open>
  One pass of the predictor's loop. CE/LI is taken when the ring has no previous matrix
  or \<^verbatim>\<open>dtm1\<close> is \<^verbatim>\<open>None\<close>; LE/QI when both are there.
\<close>

definition predict_ring ::
  "('mat, 'm) depletion_lib \<Rightarrow> real \<Rightarrow> real option \<Rightarrow> nat
     \<Rightarrow> ('mat, 'd, 'm) FuelPin \<Rightarrow> (unit, ('mat, 'd, 'm) FuelPin) outcome" where
  "predict_ring E dt dtm1 r self =
     py_eval (py_index (self_fuel_ring_flux_spectra self) (int r)) self (\<lambda>flux.
     py_eval (py_index (self_fuel_ring_materials self) (int r)) self (\<lambda>mats.
     py_eval (py_index mats (- 1)) self (\<lambda>mat0.
       (let A0 = build_depletion_matrix E mat0 flux in
     py_eval (py_store (self_fuel_ring_current_dep_mats self) (int r) (Some A0)) self (\<lambda>current.
       (let mat = clear_all_micro_xs_data E mat0;
            self1 = self\<lparr>self_fuel_ring_current_dep_mats := current,
                         self_fuel_ring_materials := (self_fuel_ring_materials self)
                           [r := mats[length mats - 1 := mat]]\<rparr>;
            nuclides = matrix_nuclides E A0
        in
     py_eval (fill_densities (atom_density E mat) nuclides 0 (replicate (matrix_size E A0) 0))
       self1 (\<lambda>N.
     py_eval (py_index (self_fuel_ring_prev_dep_mats self1) (int r)) self1 (\<lambda>prev.
       (case (prev, dtm1) of
          (Some Am1, Some dtm1') \<Rightarrow> predict_le_qi E dt dtm1' r Am1 A0 nuclides mat N self1
        | _ \<Rightarrow> predict_ce_li E dt r A0 nuclides mat N self1)))))))))"

definition predict_depletion ::
  "('mat, 'm) depletion_lib \<Rightarrow> real \<Rightarrow> real option
     \<Rightarrow> ('mat, 'd, 'm) FuelPin \<Rightarrow> (unit, ('mat, 'd, 'm) FuelPin) outcome" where
  "predict_depletion E dt dtm1 self =
     (if dt \<le> 0 then Raised ValueError self
      else for_each (predict_ring E dt dtm1) (py_range (num_fuel_rings self)) self)"

text \<open>
  The corrector. The end of one pass: the new material replaces the last entry of the
  ring's list, the matrix \<open>A0\<close> becomes the ring's previous matrix and the current matrix
  is cleared.
\<close>

definition correct_finish ::
  "('mat, 'm) depletion_lib \<Rightarrow> nat \<Rightarrow> 'm \<Rightarrow> string list \<Rightarrow> 'mat \<Rightarrow> real list
     \<Rightarrow> ('mat, 'd, 'm) FuelPin \<Rightarrow> (unit, ('mat, 'd, 'm) FuelPin) outcome" where
  "correct_finish E r A0 nuclides mat_pred N self =
     py_eval (collect_positive nuclides 0 N []) self (\<lambda>new_mat_comp.
     py_eval (py_index (self_fuel_ring_materials self) (int r)) self (\<lambda>mats.
     py_eval (py_store mats (- 1) (Material E new_mat_comp (temperature E mat_pred))) self (\<lambda>mats'.
       (let self1 = self\<lparr>self_fuel_ring_materials := (self_fuel_ring_materials self)[r := mats']\<rparr>
        in
     py_eval (py_store (self_fuel_ring_prev_dep_mats self1) (int r) (Some A0)) self1 (\<lambda>prev.
       (let self2 = self1\<lparr>self_fuel_ring_prev_dep_mats := prev\<rparr> in
     py_eval (py_store (self_fuel_ring_current_dep_mats self2) (int r) None) self2 (\<lambda>current.
       Returned () (self2\<lparr>self_fuel_ring_current_dep_mats := current\<rparr>))))))))"

text \<open>
  CE/LI and LE/QI of the corrector. \<open>A0\<close> is what the ring's current matrix holds; when
  it is \<^verbatim>\<open>None\<close> the product of a float with it raises \<^verbatim>\<open>TypeError\<close>.
\<close>

definition correct_ce_li ::
  "('mat, 'm) depletion_lib \<Rightarrow> real \<Rightarrow> nat \<Rightarrow> 'm option \<Rightarrow> 'm \<Rightarrow> string list \<Rightarrow> 'mat
     \<Rightarrow> real list \<Rightarrow> ('mat, 'd, 'm) FuelPin \<Rightarrow> (unit, ('mat, 'd, 'm) FuelPin) outcome" where
  "correct_ce_li E dt r A0' Ap1 nuclides mat_pred N self =
     (case A0' of
        None \<Rightarrow> Raised TypeError self
      | Some A0 \<Rightarrow>
          (let F1 = mat_add E (mat_rmul E (dt / 12) A0) (mat_rmul E (5 * dt / 12) Ap1);
               F2 = mat_add E (mat_rmul E (5 * dt / 12) A0) (mat_rmul E (dt / 12) Ap1);
               N' = exponential_product E F1 (exponential_product E F2 N)
           in correct_finish E r A0 nuclides mat_pred N' self))"

definition correct_le_qi ::
  "('mat, 'm) depletion_lib \<Rightarrow> real \<Rightarrow> real \<Rightarrow> nat \<Rightarrow> 'm \<Rightarrow> 'm option \<Rightarrow> 'm
     \<Rightarrow> string list \<Rightarrow> 'mat \<Rightarrow> real list
     \<Rightarrow> ('mat, 'd, 'm) FuelPin \<Rightarrow> (unit, ('mat, 'd, 'm) FuelPin) outcome" where
  "correct_le_qi E dt dtm1 r Am1 A0' Ap1 nuclides mat_pred N self =
     py_eval (py_div (- dt * dt) (12 * dtm1 * (dtm1 + dt))) self (\<lambda>a1.
     py_eval (py_div (5 * dtm1 * dtm1 + 6 * dtm1 * dt + dt * dt) (12 * dtm1 * (dtm1 + dt)))
       self (\<lambda>a0.
       (case A0' of
          None \<Rightarrow> Raised TypeError self
        | Some A0 \<Rightarrow>
     py_eval (py_div dtm1 (12 * (dtm1 + dt))) self (\<lambda>ap.
     py_eval (py_div (- dt * dt) (12 * dtm1 * (dtm1 + dt))) self (\<lambda>b1.
     py_eval (py_div (dtm1 * dtm1 + 2 * dtm1 * dt + dt * dt) (12 * dtm1 * (dtm1 + dt)))
       self (\<lambda>b0.
     py_eval (py_div (5 * dtm1 + 4 * dt) (12 * (dtm1 + dt))) self (\<lambda>bp.
       (let F3 = mat_imul E (mat_add E (mat_add E (mat_rmul E a1 Am1) (mat_rmul E a0 A0))
                               (mat_rmul E ap Ap1)) dt;
            F4 = mat_imul E (mat_add E (mat_add E (mat_rmul E b1 Am1) (mat_rmul E b0 A0))
                               (mat_rmul E bp Ap1)) dt;
            N' = exponential_product E F3 (exponential_product E F4 N)
        in correct_finish E r A0 nuclides mat_pred N' self))))))))"

definition correct_ring ::
  "('mat, 'm) depletion_lib \<Rightarrow> real \<Rightarrow> real option \<Rightarrow> nat
     \<Rightarrow> ('mat, 'd, 'm) FuelPin \<Rightarrow> (unit, ('mat, 'd, 'm) FuelPin) outcome" where
  "correct_ring E dt dtm1 r self =
     py_eval (py_index (self_fuel_ring_flux_spectra self) (int r)) self (\<lambda>flux.
     py_eval (py_index (self_fuel_ring_materials self) (int r)) self (\<lambda>mats.
     py_eval (py_index mats (- 1)) self (\<lambda>mat_pred.
     py_eval (py_index (self_fuel_ring_current_dep_mats self) (int r)) self (\<lambda>A0'.
       (let Ap1 = build_depletion_matrix E mat_pred flux in
     py_eval (py_index mats (- 2)) self (\<lambda>mat_old.
       (let nuclides = matrix_nuclides E Ap1 in
     py_eval (fill_densities (atom_density E mat_old) nuclides 0 (replicate (matrix_size E Ap1) 0))
       self (\<lambda>N.
     py_eval (py_index (self_fuel_ring_prev_dep_mats self) (int r)) self (\<lambda>prev.
       (case (prev, dtm1) of
          (Some Am1, Some dtm1') \<Rightarrow> correct_le_qi E dt dtm1' r Am1 A0' Ap1 nuclides mat_pred N self
        | _ \<Rightarrow> correct_ce_li E dt r A0' Ap1 nuclides mat_pred N self))))))))))"

definition correct_depletion ::
  "('mat, 'm) depletion_lib \<Rightarrow> real \<Rightarrow> real option
     \<Rightarrow> ('mat, 'd, 'm) FuelPin \<Rightarrow> (unit, ('mat, 'd, 'm) FuelPin) outcome" where
  "correct_depletion E dt dtm1 self =
     (if dt \<le> 0 then Raised ValueError self
      else for_each (correct_ring E dt dtm1) (py_range (num_fuel_rings self)) self)"

text \<open>
  Names for the statements about depletion. The interface of the depletion engine that
  the pin relies on: a matrix has as many rows as it reports nuclides, and the
  exponential action overwrites its array in place, keeping its length.
\<close>

definition engine_shapes :: "('mat, 'm) depletion_lib \<Rightarrow> bool" where
  "engine_shapes E =
     ((\<forall>A. matrix_size E A = length (matrix_nuclides E A))
      \<and> (\<forall>M N. length (exponential_product E M N) = length N))"

text \<open>The per-ring lists of a pin all have one entry per ring.\<close>

definition rings_consistent :: "('mat, 'd, 'm) FuelPin \<Rightarrow> bool" where
  "rings_consistent self =
     (length (self_fuel_ring_materials self) = nat (num_fuel_rings self)
      \<and> length (self_fuel_ring_flux_spectra self) = nat (num_fuel_rings self)
      \<and> length (self_fuel_ring_prev_dep_mats self) = nat (num_fuel_rings self)
      \<and> length (self_fuel_ring_current_dep_mats self) = nat (num_fuel_rings self))"

text \<open>
  The composition made of a density vector: the nuclides with a strictly positive
  density, each with that density, in the order of the nuclide list.
\<close>

definition positive_densities :: "string list \<Rightarrow> real list \<Rightarrow> (string \<times> real) list" where
  "positive_densities nuclides N = filter (\<lambda>(nuclide, x). 0 < x) (zip nuclides N)"

text \<open>
  The operators of the specification, written as it writes them, with the engine's
  product of a number and a matrix and its sum of matrices.
\<close>

definition predictor_F1 :: "('mat, 'm) depletion_lib \<Rightarrow> real \<Rightarrow> real \<Rightarrow> 'm \<Rightarrow> 'm \<Rightarrow> 'm" where
  "predictor_F1 E dt dtm1 Am1 A0 =
     mat_imul E (mat_add E (mat_rmul E (- dt / (12 * dtm1)) Am1)
                           (mat_rmul E ((6 * dtm1 + dt) / (12 * dtm1)) A0)) dt"

definition predictor_F2 :: "('mat, 'm) depletion_lib \<Rightarrow> real \<Rightarrow> real \<Rightarrow> 'm \<Rightarrow> 'm \<Rightarrow> 'm" where
  "predictor_F2 E dt dtm1 Am1 A0 =
     mat_imul E (mat_add E (mat_rmul E (- 5 * dt / (12 * dtm1)) Am1)
                           (mat_rmul E ((6 * dtm1 + 5 * dt) / (12 * dtm1)) A0)) dt"

definition corrector_F1 :: "('mat, 'm) depletion_lib \<Rightarrow> real \<Rightarrow> 'm \<Rightarrow> 'm \<Rightarrow> 'm" where
  "corrector_F1 E dt A0 Ap1 = mat_add E (mat_rmul E (dt / 12) A0) (mat_rmul E (5 * dt / 12) Ap1)"

definition corrector_F2 :: "('mat, 'm) depletion_lib \<Rightarrow> real \<Rightarrow> 'm \<Rightarrow> 'm \<Rightarrow> 'm" where
  "corrector_F2 E dt A0 Ap1 = mat_add E (mat_rmul E (5 * dt / 12) A0) (mat_rmul E (dt / 12) Ap1)"

definition corrector_F3 ::
  "('mat, 'm) depletion_lib \<Rightarrow> real \<Rightarrow> real \<Rightarrow> 'm \<Rightarrow> 'm \<Rightarrow> 'm \<Rightarrow> 'm" where
  "corrector_F3 E d p Am1 A0 Ap1 =
     mat_imul E
       (mat_add E
          (mat_add E (mat_rmul E (- d\<^sup>2 / (12 * p * (p + d))) Am1)
                     (mat_rmul E ((5 * p\<^sup>2 + 6 * p * d + d\<^sup>2) / (12 * p * (p + d))) A0))
          (mat_rmul E (p / (12 * (p + d))) Ap1)) d"

definition corrector_F4 ::
  "('mat, 'm) depletion_lib \<Rightarrow> real \<Rightarrow> real \<Rightarrow> 'm \<Rightarrow> 'm \<Rightarrow> 'm \<Rightarrow> 'm" where
  "corrector_F4 E d p Am1 A0 Ap1 =
     mat_imul E
       (mat_add E
          (mat_add E (mat_rmul E (- d\<^sup>2 / (12 * p * (p + d))) Am1)
                     (mat_rmul E ((p\<^sup>2 + 2 * p * d + d\<^sup>2) / (12 * p * (p + d))) A0))
          (mat_rmul E ((5 * p + 4 * d) / (12 * (p + d))) Ap1)) d"

text \<open>
  What the predictor computes for one ring, from the ring's previous matrix, its material
  list and its flux: the density vector after the exponential actions, and the ring's
  material list after the pass.
\<close>

definition predicted_vector ::
  "('mat, 'm) depletion_lib \<Rightarrow> real \<Rightarrow> real option \<Rightarrow> 'm option \<Rightarrow> 'm \<Rightarrow> real list
     \<Rightarrow> real list" where
  "predicted_vector E dt dtm1 prev A0 N =
     (case (prev, dtm1) of
        (Some Am1, Some p) \<Rightarrow>
          exponential_product E (predictor_F1 E dt p Am1 A0)
            (exponential_product E (predictor_F2 E dt p Am1 A0) N)
      | _ \<Rightarrow> exponential_product E (mat_imul E A0 dt) N)"

definition predicted_ring_materials ::
  "('mat, 'm) depletion_lib \<Rightarrow> real \<Rightarrow> real option \<Rightarrow> 'm option \<Rightarrow> 'mat list
     \<Rightarrow> real list \<Rightarrow> 'mat list" where
  "predicted_ring_materials E dt dtm1 prev mats flux =
     (let A0 = build_depletion_matrix E (last mats) flux;
          mat = clear_all_micro_xs_data E (last mats);
          nuclides = matrix_nuclides E A0;
          N = map (atom_density E mat) nuclides
      in butlast mats
         @ [mat, Material E (positive_densities nuclides (predicted_vector E dt dtm1 prev A0 N))
                   (temperature E mat)])"

text \<open>The matrix the predictor leaves as the ring's current matrix.\<close>

definition predicted_current ::
  "('mat, 'm) depletion_lib \<Rightarrow> real \<Rightarrow> real option \<Rightarrow> 'm option \<Rightarrow> 'm \<Rightarrow> 'm" where
  "predicted_current E dt dtm1 prev A0 =
     (case (prev, dtm1) of
        (Some Am1, Some p) \<Rightarrow> A0
      | _ \<Rightarrow> mat_idiv E (mat_imul E A0 dt) dt)"

text \<open>
  What the corrector computes for one ring, from the ring's previous matrix, the matrix
  \<open>A0\<close> the predictor stored, the ring's material list and its flux.
\<close>

definition corrected_vector ::
  "('mat, 'm) depletion_lib \<Rightarrow> real \<Rightarrow> real option \<Rightarrow> 'm option \<Rightarrow> 'm \<Rightarrow> 'm
     \<Rightarrow> real list \<Rightarrow> real list" where
  "corrected_vector E dt dtm1 prev A0 Ap1 N =
     (case (prev, dtm1) of
        (Some Am1, Some p) \<Rightarrow>
          exponential_product E (corrector_F3 E dt p Am1 A0 Ap1)
            (exponential_product E (corrector_F4 E dt p Am1 A0 Ap1) N)
      | _ \<Rightarrow> exponential_product E (corrector_F1 E dt A0 Ap1)
               (exponential_product E (corrector_F2 E dt A0 Ap1) N))"

definition corrected_ring_materials ::
  "('mat, 'm) depletion_lib \<Rightarrow> real \<Rightarrow> real option \<Rightarrow> 'm option \<Rightarrow> 'm \<Rightarrow> 'mat list
     \<Rightarrow> real list \<Rightarrow> 'mat list" where
  "corrected_ring_materials E dt dtm1 prev A0 mats flux =
     (let Ap1 = build_depletion_matrix E (last mats) flux;
          mat_old = mats ! (length mats - 2);
          nuclides = matrix_nuclides E Ap1;
          N = map (atom_density E mat_old) nuclides
      in butlast mats
         @ [Material E (positive_densities nuclides (corrected_vector E dt dtm1 prev A0 Ap1 N))
              (temperature E (last mats))])"

section \<open>Concrete instances\<close>

text \<open>
  A concrete pin for the closed instances of the theorems: one ring of radius \<open>2\<close>, no gap, clad
  radius \<open>3\<close>, materials of type \<open>nat\<close>, cross sections whose payload lists the arguments
  their kernel was called with, matrices of type \<open>real\<close>.
\<close>

definition pin0 :: "(nat, real list, real) FuelPin" where
  "pin0 = \<lparr> self_fuel_radius = 2, self_num_fuel_rings = 1, self_gap = None,
     self_gap_radius = None, self_clad = 7, self_clad_radius = 3,
     self_fuel_dancoff_corrections = [], self_clad_dancoff_corrections = [],
     self_fuel_ring_fsr_ids = [[]], self_gap_fsr_ids = [], self_clad_fsr_ids = [],
     self_mod_fsr_ids = [], self_fuel_ring_fsr_inds = [[]], self_fuel_radii = [2],
     self_fuel_ring_materials = [[5]], self_fuel_ring_flux_spectra = [[]],
     self_fuel_ring_prev_dep_mats = [None], self_fuel_ring_current_dep_mats = [None],
     self_fuel_ring_xs = [], self_gap_xs = None, self_clad_xs = None \<rparr>"

text \<open>
  Kernels that record their numeric arguments, and the pin with one Dancoff correction
  stored for the fuel and one for the clad.
\<close>

definition lib0 :: "(nat, real list) xs_lib" where
  "lib0 = \<lparr> carlvik_xs = (\<lambda>m C Ee. \<lparr>name = [], xs_data = [C, Ee]\<rparr>),
     ring_carlvik_xs = (\<lambda>m C R Rin Rout. \<lparr>name = [], xs_data = [C, R, Rin, Rout]\<rparr>),
     roman_xs = (\<lambda>m C Ee. \<lparr>name = [], xs_data = [C, Ee]\<rparr>),
     xs_set = (\<lambda>old new. new) \<rparr>"

definition pin1 :: "(nat, real list, real) FuelPin" where
  "pin1 = pin0\<lparr>self_fuel_dancoff_corrections := [1 / 2],
               self_clad_dancoff_corrections := [1 / 4]\<rparr>"

text \<open>
  The pin with its fuel and clad cross sections built, and a geometry builder whose
  cells are their identifier lists: every cell has the eight identifiers \<open>7, \<dots>, 0\<close>.
\<close>

definition pin2 :: "(nat, real list, real) FuelPin" where
  "pin2 = pin1\<lparr>self_fuel_ring_xs := [\<lparr>name = ''Fuel'', xs_data = [1 / 2, 1 / 4]\<rparr>],
               self_clad_xs := Some \<lparr>name = ''Clad'', xs_data = [1 / 4, 1 / 2]\<rparr>\<rparr>"

definition geo0 :: "(real list, nat list) geometry_lib" where
  "geo0 = \<lparr> PinCell = (\<lambda>radii xss dx dy pintype. [7, 6, 5, 4, 3, 2, 1, 0]),
     get_all_fsr_ids = (\<lambda>cell. cell) \<rparr>"

definition mod0 :: "real list CrossSection" where
  "mod0 = \<lparr>name = ''Moderator'', xs_data = []\<rparr>"

text \<open>
  A depletion engine for the closed instances: materials are pairs of a composition and a
  temperature, a matrix is a single number for the one nuclide \<open>U235\<close>, its exponential
  action multiplies each density by \<open>1 + M\<close>, and the arithmetic of matrices is that of
  the reals. The pin \<open>dpin0\<close> has one ring holding its initial material; \<open>dpin1\<close> also has
  a previous matrix; \<open>dpin2\<close> is a pin between predictor and corrector.
\<close>

definition engine0 :: "((string \<times> real) list \<times> real, real) depletion_lib" where
  "engine0 = \<lparr> build_depletion_matrix = (\<lambda>mat flux. - (1 / 2)),
     matrix_size = (\<lambda>A. 1),
     matrix_nuclides = (\<lambda>A. [''U235'']),
     exponential_product = (\<lambda>M N. map (\<lambda>x. (1 + M) * x) N),
     atom_density = (\<lambda>mat nuclide. case map_of (fst mat) nuclide of Some x \<Rightarrow> x | None \<Rightarrow> 0),
     temperature = snd,
     clear_all_micro_xs_data = (\<lambda>mat. mat),
     Material = (\<lambda>composition T. (composition, T)),
     mat_rmul = (\<lambda>c A. c * A),
     mat_add = (\<lambda>A B. A + B),
     mat_imul = (\<lambda>A c. A * c),
     mat_idiv = (\<lambda>A c. A / c) \<rparr>"

definition dpin0 :: "((string \<times> real) list \<times> real, real list, real) FuelPin" where
  "dpin0 = \<lparr> self_fuel_radius = 2, self_num_fuel_rings = 1, self_gap = None,
     self_gap_radius = None, self_clad = ([], 600), self_clad_radius = 3,
     self_fuel_dancoff_corrections = [], self_clad_dancoff_corrections = [],
     self_fuel_ring_fsr_ids = [[]], self_gap_fsr_ids = [], self_clad_fsr_ids = [],
     self_mod_fsr_ids = [], self_fuel_ring_fsr_inds = [[]], self_fuel_radii = [2],
     self_fuel_ring_materials = [[([(''U235'', 8)], 900)]], self_fuel_ring_flux_spectra = [[1]],
     self_fuel_ring_prev_dep_mats = [None], self_fuel_ring_current_dep_mats = [None],
     self_fuel_ring_xs = [], self_gap_xs = None, self_clad_xs = None \<rparr>"

definition dpin1 :: "((string \<times> real) list \<times> real, real list, real) FuelPin" where
  "dpin1 = dpin0\<lparr>self_fuel_ring_prev_dep_mats := [Some (- (1 / 4))]\<rparr>"

definition dpin2 :: "((string \<times> real) list \<times> real, real list, real) FuelPin" where
  "dpin2 = dpin0\<lparr>self_fuel_ring_materials := [[([(''U235'', 8)], 900), ([(''U235'', 4)], 900)]],
                 self_fuel_ring_current_dep_mats := [Some (- (1 / 2))]\<rparr>"



section \<open>Verification\<close>

subsection \<open>Dancoff correction history\<close>

text \<open>
  C9. For every \<open>C\<close> with \<open>0 \<le> C \<le> 1\<close> both append methods return and extend their
  history list by \<open>C\<close> at the end, the earlier entries unchanged; for every \<open>C < 0\<close> or
  \<open>C > 1\<close> both raise and leave the pin, hence the list, as it was. In particular
  \<open>C = -0.01\<close> and \<open>C = 1.01\<close> raise.
\<close>

theorem append_dancoff_correction_range:
  fixes self :: "('mat, 'd, 'm) FuelPin"
  shows "(0 \<le> C \<and> C \<le> 1 \<longrightarrow>
           (\<exists>s. append_fuel_dancoff_correction self C = Returned () s
              \<and> fuel_dancoff_corrections s = fuel_dancoff_corrections self @ [C]
              \<and> take (length (fuel_dancoff_corrections self)) (fuel_dancoff_corrections s)
                  = fuel_dancoff_corrections self)
         \<and> (\<exists>s. append_clad_dancoff_correction self C = Returned () s
              \<and> clad_dancoff_corrections s = clad_dancoff_corrections self @ [C]
              \<and> take (length (clad_dancoff_corrections self)) (clad_dancoff_corrections s)
                  = clad_dancoff_corrections self))
       \<and> (C < 0 \<or> C > 1 \<longrightarrow>
             append_fuel_dancoff_correction self C = Raised ValueError self
           \<and> append_clad_dancoff_correction self C = Raised ValueError self)
       \<and> append_fuel_dancoff_correction self (- (1 / 100)) = Raised ValueError self
       \<and> append_fuel_dancoff_correction self (101 / 100) = Raised ValueError self
       \<and> append_clad_dancoff_correction self (- (1 / 100)) = Raised ValueError self
       \<and> append_clad_dancoff_correction self (101 / 100) = Raised ValueError self"
  by (simp add: append_fuel_dancoff_correction_def append_clad_dancoff_correction_def
      fuel_dancoff_corrections_def clad_dancoff_corrections_def)

theorem append_dancoff_correction_range_witness:
  "fuel_dancoff_corrections (state_of (append_fuel_dancoff_correction pin0 (1 / 2))) = [1 / 2]
   \<and> clad_dancoff_corrections (state_of (append_clad_dancoff_correction pin0 (1 / 2))) = [1 / 2]
   \<and> append_fuel_dancoff_correction pin0 (3 / 2) = Raised ValueError pin0
   \<and> append_clad_dancoff_correction pin0 (3 / 2) = Raised ValueError pin0"
proof -
  have inside: "(0::real) \<le> 1 / 2 \<and> (1::real) / 2 \<le> 1" by simp
  have outside: "(3::real) / 2 < 0 \<or> (3::real) / 2 > 1" by simp
  from append_dancoff_correction_range [of "1 / 2" pin0] inside
  have a: "fuel_dancoff_corrections (state_of (append_fuel_dancoff_correction pin0 (1 / 2)))
             = fuel_dancoff_corrections pin0 @ [1 / 2]"
    and b: "clad_dancoff_corrections (state_of (append_clad_dancoff_correction pin0 (1 / 2)))
             = clad_dancoff_corrections pin0 @ [1 / 2]"
    by auto
  from append_dancoff_correction_range [of "3 / 2" pin0] outside
  have c: "append_fuel_dancoff_correction pin0 (3 / 2) = Raised ValueError pin0"
    and d: "append_clad_dancoff_correction pin0 (3 / 2) = Raised ValueError pin0"
    by blast+
  have e: "fuel_dancoff_corrections pin0 = []" "clad_dancoff_corrections pin0 = []"
    by (simp_all add: fuel_dancoff_corrections_def clad_dancoff_corrections_def pin0_def)
  show ?thesis using a b c d e by simp
qed

subsection \<open>The flux-spectra property\<close>

lemma for_each_materials_kept:
  assumes "\<And>x s. self_fuel_ring_materials (state_of (body x s)) = self_fuel_ring_materials s"
  shows "self_fuel_ring_materials (state_of (for_each body xs s)) = self_fuel_ring_materials s"
proof (induction xs arbitrary: s)
  case Nil
  show ?case by simp
next
  case (Cons x xs)
  show ?case
  proof (cases "body x s")
    case (Returned u s')
    then have "self_fuel_ring_materials s' = self_fuel_ring_materials s"
      using assms [of x s] by simp
    then show ?thesis using Returned Cons.IH [of s'] by simp
  next
    case (Raised e s')
    then show ?thesis using assms [of x s] by simp
  qed
qed

lemma obtain_ring_flux_spectrum_materials:
  "self_fuel_ring_materials (state_of (obtain_ring_flux_spectrum h r s))
     = self_fuel_ring_materials s"
  by (simp add: obtain_ring_flux_spectrum_def split: sum.splits)

text \<open>
  C10. The property \<^verbatim>\<open>fuel_ring_flux_spectra\<close> reads the attribute
  \<^verbatim>\<open>_fuel_ring_materials\<close>: for every pin it returns what \<^verbatim>\<open>fuel_ring_materials\<close>
  returns. It does not read the storage \<^verbatim>\<open>_fuel_ring_flux_spectra\<close>: overwriting that
  storage, directly or by \<^verbatim>\<open>obtain_flux_spectra\<close>, leaves what the property returns
  unchanged.
\<close>

theorem fuel_ring_flux_spectra_is_materials:
  fixes self :: "('mat, 'd, 'm) FuelPin"
  shows "fuel_ring_flux_spectra self = fuel_ring_materials self
       \<and> fuel_ring_flux_spectra self = self_fuel_ring_materials self
       \<and> fuel_ring_flux_spectra (self\<lparr>self_fuel_ring_flux_spectra := spectra\<rparr>)
           = fuel_ring_materials self
       \<and> fuel_ring_flux_spectra (state_of (obtain_flux_spectra homogenize self))
           = fuel_ring_materials self"
  unfolding fuel_ring_flux_spectra_def fuel_ring_materials_def obtain_flux_spectra_def
  using for_each_materials_kept [of "obtain_ring_flux_spectrum homogenize",
      OF obtain_ring_flux_spectrum_materials]
  by simp

subsection \<open>Escape cross sections\<close>

lemma py_div_nonzero: "b \<noteq> 0 \<Longrightarrow> py_div a b = Inr (a / b)"
  by (simp add: py_div_def)

text \<open>
  C8. With a single fuel ring, \<^verbatim>\<open>set_fuel_xs_for_depletion_step\<close> hands the kernel
  \<^verbatim>\<open>carlvik_xs\<close> the escape cross section \<open>1 / (2 R\<^sub>f\<^sub>u\<^sub>e\<^sub>l)\<close>, on first construction
  and on reset alike. \<^verbatim>\<open>set_clad_xs_for_depletion_step\<close> hands \<^verbatim>\<open>roman_xs\<close> the value
  \<open>1 / (2 (R\<^sub>c\<^sub>l\<^sub>a\<^sub>d - R\<^sub>g\<^sub>a\<^sub>p))\<close> when the pin has a gap radius and
  \<open>1 / (2 (R\<^sub>c\<^sub>l\<^sub>a\<^sub>d - R\<^sub>f\<^sub>u\<^sub>e\<^sub>l))\<close> otherwise. The fuel method raises
  \<^verbatim>\<open>RuntimeError\<close>, with the pin untouched, when the number of cross sections it finds
  is neither zero nor the ring count. The kernels are arbitrary, so the results name the
  arguments they were called with.
\<close>

theorem escape_cross_sections:
  fixes self :: "('mat, 'd, 'm) FuelPin" and L :: "('mat, 'd) xs_lib"
  shows "(num_fuel_rings self = 1 \<and> fuel_radius self \<noteq> 0
            \<and> py_index (self_fuel_ring_materials self) 0 = Inr mats
            \<and> py_index mats t = Inr mat
            \<and> py_index (self_fuel_dancoff_corrections self) t = Inr C \<longrightarrow>
            (self_fuel_ring_xs self = [] \<longrightarrow>
               set_fuel_xs_for_depletion_step L t self = Returned ()
                 (self\<lparr>self_fuel_ring_xs :=
                    [name_default ''Fuel'' (carlvik_xs L mat C (1 / (2 * fuel_radius self)))]\<rparr>))
          \<and> (\<forall>old. self_fuel_ring_xs self = [old] \<longrightarrow>
               set_fuel_xs_for_depletion_step L t self = Returned ()
                 (self\<lparr>self_fuel_ring_xs :=
                    [name_default ''Fuel''
                       (xs_set L old (carlvik_xs L mat C (1 / (2 * fuel_radius self))))]\<rparr>)))
       \<and> (py_index (self_clad_dancoff_corrections self) t = Inr Cc \<longrightarrow>
            (\<forall>g. gap_radius self = Some g \<and> clad_radius self \<noteq> g \<longrightarrow>
               set_clad_xs_for_depletion_step L t self = Returned ()
                 (self\<lparr>self_clad_xs := Some (name_default ''Clad''
                    (case self_clad_xs self of
                       None \<Rightarrow> roman_xs L (clad self) Cc (1 / (2 * (clad_radius self - g)))
                     | Some old \<Rightarrow> xs_set L old
                         (roman_xs L (clad self) Cc (1 / (2 * (clad_radius self - g))))))\<rparr>))
          \<and> (gap_radius self = None \<and> clad_radius self \<noteq> fuel_radius self \<longrightarrow>
               set_clad_xs_for_depletion_step L t self = Returned ()
                 (self\<lparr>self_clad_xs := Some (name_default ''Clad''
                    (case self_clad_xs self of
                       None \<Rightarrow> roman_xs L (clad self) Cc
                         (1 / (2 * (clad_radius self - fuel_radius self)))
                     | Some old \<Rightarrow> xs_set L old
                         (roman_xs L (clad self) Cc
                            (1 / (2 * (clad_radius self - fuel_radius self))))))\<rparr>)))
       \<and> (length (self_fuel_ring_xs self) \<noteq> 0
            \<and> int (length (self_fuel_ring_xs self)) \<noteq> num_fuel_rings self \<longrightarrow>
            set_fuel_xs_for_depletion_step L t self = Raised RuntimeError self)"
proof (intro conjI impI allI)
  assume h: "num_fuel_rings self = 1 \<and> fuel_radius self \<noteq> 0
            \<and> py_index (self_fuel_ring_materials self) 0 = Inr mats
            \<and> py_index mats t = Inr mat
            \<and> py_index (self_fuel_dancoff_corrections self) t = Inr C"
  show "set_fuel_xs_for_depletion_step L t self = Returned ()
          (self\<lparr>self_fuel_ring_xs :=
             [name_default ''Fuel'' (carlvik_xs L mat C (1 / (2 * fuel_radius self)))]\<rparr>)"
    if "self_fuel_ring_xs self = []"
    using h that by (simp add: set_fuel_xs_for_depletion_step_def py_eval_def py_div_def)
  show "set_fuel_xs_for_depletion_step L t self = Returned ()
          (self\<lparr>self_fuel_ring_xs :=
             [name_default ''Fuel''
                (xs_set L old (carlvik_xs L mat C (1 / (2 * fuel_radius self))))]\<rparr>)"
    if "self_fuel_ring_xs self = [old]" for old
    using h that
    by (simp add: set_fuel_xs_for_depletion_step_def py_eval_def py_div_def py_index_def)
next
  assume h: "py_index (self_clad_dancoff_corrections self) t = Inr Cc"
  show "set_clad_xs_for_depletion_step L t self = Returned ()
          (self\<lparr>self_clad_xs := Some (name_default ''Clad''
             (case self_clad_xs self of
                None \<Rightarrow> roman_xs L (clad self) Cc (1 / (2 * (clad_radius self - g)))
              | Some old \<Rightarrow> xs_set L old
                  (roman_xs L (clad self) Cc (1 / (2 * (clad_radius self - g))))))\<rparr>)"
    if g: "gap_radius self = Some g \<and> clad_radius self \<noteq> g" for g
  proof -
    have "2 * (clad_radius self - g) \<noteq> 0" using g by simp
    then have "py_div 1 (2 * (clad_radius self - g)) = Inr (1 / (2 * (clad_radius self - g)))"
      by (rule py_div_nonzero)
    then show ?thesis
      using h g by (simp add: set_clad_xs_for_depletion_step_def py_eval_def
          del: right_diff_distrib_numeral)
  qed
  show "set_clad_xs_for_depletion_step L t self = Returned ()
          (self\<lparr>self_clad_xs := Some (name_default ''Clad''
             (case self_clad_xs self of
                None \<Rightarrow> roman_xs L (clad self) Cc
                  (1 / (2 * (clad_radius self - fuel_radius self)))
              | Some old \<Rightarrow> xs_set L old
                  (roman_xs L (clad self) Cc
                     (1 / (2 * (clad_radius self - fuel_radius self))))))\<rparr>)"
    if g: "gap_radius self = None \<and> clad_radius self \<noteq> fuel_radius self"
  proof -
    have "2 * (clad_radius self - fuel_radius self) \<noteq> 0" using g by simp
    then have "py_div 1 (2 * (clad_radius self - fuel_radius self))
                 = Inr (1 / (2 * (clad_radius self - fuel_radius self)))"
      by (rule py_div_nonzero)
    then show ?thesis
      using h g by (simp add: set_clad_xs_for_depletion_step_def py_eval_def
          del: right_diff_distrib_numeral)
  qed
next
  assume "length (self_fuel_ring_xs self) \<noteq> 0
            \<and> int (length (self_fuel_ring_xs self)) \<noteq> num_fuel_rings self"
  then show "set_fuel_xs_for_depletion_step L t self = Raised RuntimeError self"
    by (simp add: set_fuel_xs_for_depletion_step_def)
qed

theorem escape_cross_sections_witness:
  "set_fuel_xs_for_depletion_step lib0 0 pin1
     = Returned () (pin1\<lparr>self_fuel_ring_xs := [\<lparr>name = ''Fuel'', xs_data = [1 / 2, 1 / 4]\<rparr>]\<rparr>)
   \<and> set_clad_xs_for_depletion_step lib0 0 pin1
     = Returned () (pin1\<lparr>self_clad_xs := Some \<lparr>name = ''Clad'', xs_data = [1 / 4, 1 / 2]\<rparr>\<rparr>)
   \<and> set_fuel_xs_for_depletion_step lib0 0
        (pin1\<lparr>self_fuel_ring_xs := [\<lparr>name = ''a'', xs_data = []\<rparr>, \<lparr>name = ''b'', xs_data = []\<rparr>]\<rparr>)
     = Raised RuntimeError
        (pin1\<lparr>self_fuel_ring_xs := [\<lparr>name = ''a'', xs_data = []\<rparr>, \<lparr>name = ''b'', xs_data = []\<rparr>]\<rparr>)"
proof -
  have pre: "num_fuel_rings pin1 = 1 \<and> fuel_radius pin1 \<noteq> 0
       \<and> py_index (self_fuel_ring_materials pin1) 0 = Inr [5]
       \<and> py_index [5::nat] 0 = Inr 5
       \<and> py_index (self_fuel_dancoff_corrections pin1) 0 = Inr (1 / 2)"
    by (simp add: pin1_def pin0_def num_fuel_rings_def fuel_radius_def py_index_def)
  have prc: "py_index (self_clad_dancoff_corrections pin1) 0 = Inr (1 / 4)"
    by (simp add: pin1_def pin0_def py_index_def)
  have gapc: "gap_radius pin1 = None \<and> clad_radius pin1 \<noteq> fuel_radius pin1"
    by (simp add: pin1_def pin0_def gap_radius_def clad_radius_def fuel_radius_def)
  have empty: "self_fuel_ring_xs pin1 = []" by (simp add: pin1_def pin0_def)
  note inst = escape_cross_sections [where self = pin1 and mats = "[5]" and t = 0 and mat = 5
      and C = "1 / 2" and Cc = "1 / 4" and L = lib0]
  from inst pre empty
  have "set_fuel_xs_for_depletion_step lib0 0 pin1 = Returned ()
          (pin1\<lparr>self_fuel_ring_xs :=
             [name_default ''Fuel'' (carlvik_xs lib0 5 (1 / 2) (1 / (2 * fuel_radius pin1)))]\<rparr>)"
    by blast
  then have a: "set_fuel_xs_for_depletion_step lib0 0 pin1
     = Returned () (pin1\<lparr>self_fuel_ring_xs := [\<lparr>name = ''Fuel'', xs_data = [1 / 2, 1 / 4]\<rparr>]\<rparr>)"
    by (simp add: lib0_def name_default_def fuel_radius_def pin1_def pin0_def)
  from inst prc gapc
  have "set_clad_xs_for_depletion_step lib0 0 pin1 = Returned ()
          (pin1\<lparr>self_clad_xs := Some (name_default ''Clad''
             (case self_clad_xs pin1 of
                None \<Rightarrow> roman_xs lib0 (clad pin1) (1 / 4)
                  (1 / (2 * (clad_radius pin1 - fuel_radius pin1)))
              | Some old \<Rightarrow> xs_set lib0 old
                  (roman_xs lib0 (clad pin1) (1 / 4)
                     (1 / (2 * (clad_radius pin1 - fuel_radius pin1))))))\<rparr>)"
    by blast
  then have b: "set_clad_xs_for_depletion_step lib0 0 pin1
     = Returned () (pin1\<lparr>self_clad_xs := Some \<lparr>name = ''Clad'', xs_data = [1 / 4, 1 / 2]\<rparr>\<rparr>)"
    by (simp add: lib0_def name_default_def fuel_radius_def clad_radius_def clad_def
        pin1_def pin0_def)
  define q where "q = pin1\<lparr>self_fuel_ring_xs :=
      [\<lparr>name = ''a'', xs_data = []\<rparr>, \<lparr>name = ''b'', xs_data = []\<rparr>]\<rparr>"
  have "length (self_fuel_ring_xs q) \<noteq> 0
          \<and> int (length (self_fuel_ring_xs q)) \<noteq> num_fuel_rings q"
    by (simp add: q_def pin1_def pin0_def num_fuel_rings_def)
  with escape_cross_sections [where self = q and t = 0 and L = lib0]
  have "set_fuel_xs_for_depletion_step lib0 0 q = Raised RuntimeError q" by blast
  then have c: "set_fuel_xs_for_depletion_step lib0 0
        (pin1\<lparr>self_fuel_ring_xs := [\<lparr>name = ''a'', xs_data = []\<rparr>, \<lparr>name = ''b'', xs_data = []\<rparr>]\<rparr>)
     = Raised RuntimeError
        (pin1\<lparr>self_fuel_ring_xs := [\<lparr>name = ''a'', xs_data = []\<rparr>, \<lparr>name = ''b'', xs_data = []\<rparr>]\<rparr>)"
    by (simp only: q_def)
  show ?thesis using a b c by (intro conjI)
qed

subsection \<open>Region identifiers of the transport cell\<close>

lemma for_each_append:
  "for_each body (xs @ ys) s = and_then (for_each body xs s) (for_each body ys)"
  by (induction xs arbitrary: s) (simp_all add: and_then_def split: outcome.splits)

lemma py_index_nat: "i < length xs \<Longrightarrow> py_index xs (int i) = Inr (xs ! i)"
  by (simp add: py_index_def)

lemma take_Suc_drop: "i < length xs \<Longrightarrow> take (Suc n) (drop i xs) = xs ! i # take n (drop (Suc i) xs)"
  by (simp add: Cons_nth_drop_Suc [symmetric])

lemma ring_ids_loop:
  assumes "r < length (self_fuel_ring_fsr_ids self)" and "i + length as \<le> length ids"
  shows "for_each (append_ring_fsr_id ids r) as (self, i)
         = Returned () (self\<lparr>self_fuel_ring_fsr_ids := (self_fuel_ring_fsr_ids self)
               [r := self_fuel_ring_fsr_ids self ! r @ take (length as) (drop i ids)]\<rparr>,
             i + length as)"
  using assms
proof (induction as arbitrary: self i)
  case Nil
  then show ?case by simp
next
  case (Cons a as)
  let ?self1 = "self\<lparr>self_fuel_ring_fsr_ids := (self_fuel_ring_fsr_ids self)
                   [r := self_fuel_ring_fsr_ids self ! r @ [ids ! i]]\<rparr>"
  have i: "i < length ids" using Cons.prems by simp
  have one: "append_ring_fsr_id ids r a (self, i) = Returned () (?self1, Suc i)"
    using Cons.prems(1) i by (simp add: append_ring_fsr_id_def py_eval_def py_index_nat)
  have r1: "r < length (self_fuel_ring_fsr_ids ?self1)" using Cons.prems(1) by simp
  have i1: "Suc i + length as \<le> length ids" using Cons.prems(2) by simp
  show ?case
    using Cons.IH [OF r1 i1] Cons.prems(1) one by (simp add: take_Suc_drop [OF i])
qed

lemma gap_ids_loop:
  assumes "i + length as \<le> length ids"
  shows "for_each (append_gap_fsr_id ids) as (self, i)
         = Returned () (self\<lparr>self_gap_fsr_ids :=
               self_gap_fsr_ids self @ take (length as) (drop i ids)\<rparr>, i + length as)"
  using assms
proof (induction as arbitrary: self i)
  case Nil
  then show ?case by simp
next
  case (Cons a as)
  let ?self1 = "self\<lparr>self_gap_fsr_ids := self_gap_fsr_ids self @ [ids ! i]\<rparr>"
  have i: "i < length ids" using Cons.prems by simp
  have one: "append_gap_fsr_id ids a (self, i) = Returned () (?self1, Suc i)"
    using i by (simp add: append_gap_fsr_id_def py_eval_def py_index_nat)
  have i1: "Suc i + length as \<le> length ids" using Cons.prems by simp
  show ?case
    using Cons.IH [OF i1, of ?self1] one by (simp add: take_Suc_drop [OF i])
qed

lemma clad_ids_loop:
  assumes "i + length as \<le> length ids"
  shows "for_each (append_clad_fsr_id ids) as (self, i)
         = Returned () (self\<lparr>self_clad_fsr_ids :=
               self_clad_fsr_ids self @ take (length as) (drop i ids)\<rparr>, i + length as)"
  using assms
proof (induction as arbitrary: self i)
  case Nil
  then show ?case by simp
next
  case (Cons a as)
  let ?self1 = "self\<lparr>self_clad_fsr_ids := self_clad_fsr_ids self @ [ids ! i]\<rparr>"
  have i: "i < length ids" using Cons.prems by simp
  have one: "append_clad_fsr_id ids a (self, i) = Returned () (?self1, Suc i)"
    using i by (simp add: append_clad_fsr_id_def py_eval_def py_index_nat)
  have i1: "Suc i + length as \<le> length ids" using Cons.prems by simp
  show ?case
    using Cons.IH [OF i1, of ?self1] one by (simp add: take_Suc_drop [OF i])
qed

lemma map_upt_update:
  "k < n \<Longrightarrow> (map f [0 ..< n])[k := v] = map (\<lambda>r. if r = k then v else f r) [0 ..< n]"
  by (rule nth_equalityI) (auto simp: nth_list_update)

lemma rings_loop:
  assumes "k \<le> length (self_fuel_ring_fsr_ids self)" and "k * NA \<le> length ids"
  shows "for_each (\<lambda>r. for_each (append_ring_fsr_id ids r) [0 ..< NA]) [0 ..< k] (self, 0)
         = Returned () (self\<lparr>self_fuel_ring_fsr_ids :=
               map (\<lambda>r. if r < k then self_fuel_ring_fsr_ids self ! r @ ring_block ids NA r
                         else self_fuel_ring_fsr_ids self ! r)
                 [0 ..< length (self_fuel_ring_fsr_ids self)]\<rparr>, k * NA)"
  using assms
proof (induction k)
  case 0
  then show ?case by (simp add: map_nth)
next
  case (Suc k)
  let ?old = "self_fuel_ring_fsr_ids self"
  let ?mid = "map (\<lambda>r. if r < k then ?old ! r @ ring_block ids NA r else ?old ! r)
                [0 ..< length ?old]"
  let ?self1 = "self\<lparr>self_fuel_ring_fsr_ids := ?mid\<rparr>"
  have k: "k < length ?old" using Suc.prems(1) by simp
  have "k * NA \<le> length ids" using Suc.prems(2) by simp
  with Suc.IH k
  have front: "for_each (\<lambda>r. for_each (append_ring_fsr_id ids r) [0 ..< NA]) [0 ..< k] (self, 0)
                 = Returned () (?self1, k * NA)"
    by simp
  have r1: "k < length (self_fuel_ring_fsr_ids ?self1)" using k by simp
  have i1: "k * NA + length [0 ..< NA] \<le> length ids" using Suc.prems(2) by simp
  have upd: "?mid[k := ?mid ! k @ take NA (drop (k * NA) ids)]
               = map (\<lambda>r. if r < Suc k then ?old ! r @ ring_block ids NA r else ?old ! r)
                   [0 ..< length ?old]"
  proof -
    have "?mid ! k = ?old ! k" using k by simp
    then have "?mid[k := ?mid ! k @ take NA (drop (k * NA) ids)]
                 = map (\<lambda>r. if r = k then ?old ! k @ ring_block ids NA k
                           else if r < k then ?old ! r @ ring_block ids NA r else ?old ! r)
                     [0 ..< length ?old]"
      using k by (simp only: map_upt_update ring_block_def)
    also have "\<dots> = map (\<lambda>r. if r < Suc k then ?old ! r @ ring_block ids NA r else ?old ! r)
                         [0 ..< length ?old]"
      by (rule map_cong) (auto simp: less_Suc_eq)
    finally show ?thesis .
  qed
  have "for_each (append_ring_fsr_id ids k) [0 ..< NA] (?self1, k * NA)
          = Returned () (?self1\<lparr>self_fuel_ring_fsr_ids := (self_fuel_ring_fsr_ids ?self1)
               [k := self_fuel_ring_fsr_ids ?self1 ! k @ take (length [0 ..< NA]) (drop (k * NA) ids)]\<rparr>,
             k * NA + length [0 ..< NA])"
    by (rule ring_ids_loop [OF r1 i1])
  then have lastr: "for_each (append_ring_fsr_id ids k) [0 ..< NA] (?self1, k * NA)
          = Returned () (self\<lparr>self_fuel_ring_fsr_ids :=
               map (\<lambda>r. if r < Suc k then ?old ! r @ ring_block ids NA r else ?old ! r)
                 [0 ..< length ?old]\<rparr>, Suc k * NA)"
    using upd by (simp add: add.commute)
  show ?case
    by (simp only: upt_Suc_append [OF le0] for_each_append front and_then_def outcome.case
        for_each.simps lastr)
qed

lemma check_dx_dy_footprint:
  "check_dx_dy self dx dy pintype
     = (if footprint_too_small self dx dy pintype then Some ValueError else None)"
  by (cases pintype) (auto simp: check_dx_dy_def footprint_too_small_def)

lemma concat_ring_blocks:
  "m * NA \<le> length ids \<Longrightarrow> concat (map (ring_block ids NA) [0 ..< m]) = take (m * NA) ids"
proof (induction m)
  case 0
  show ?case by simp
next
  case (Suc m)
  then have "concat (map (ring_block ids NA) [0 ..< m]) = take (m * NA) ids" by simp
  then have "concat (map (ring_block ids NA) [0 ..< Suc m])
               = take (m * NA) ids @ take NA (drop (m * NA) ids)"
    by (simp add: ring_block_def)
  also have "\<dots> = take (m * NA + NA) ids" by (simp only: take_add)
  also have "m * NA + NA = Suc m * NA" by simp
  finally show ?case .
qed

lemma rings_loop_all:
  assumes len: "length (self_fuel_ring_fsr_ids self) = n" and ids: "n * NA \<le> length ids"
  shows "for_each (\<lambda>r. for_each (append_ring_fsr_id ids r) [0 ..< NA]) [0 ..< n] (self, 0)
         = Returned () (self\<lparr>self_fuel_ring_fsr_ids :=
               map (\<lambda>r. self_fuel_ring_fsr_ids self ! r @ ring_block ids NA r) [0 ..< n]\<rparr>,
             n * NA)"
proof -
  have n1: "n \<le> length (self_fuel_ring_fsr_ids self)" using len by simp
  have "map (\<lambda>r. if r < n then self_fuel_ring_fsr_ids self ! r @ ring_block ids NA r
                     else self_fuel_ring_fsr_ids self ! r)
          [0 ..< length (self_fuel_ring_fsr_ids self)]
        = map (\<lambda>r. self_fuel_ring_fsr_ids self ! r @ ring_block ids NA r) [0 ..< n]"
    unfolding len by (rule map_cong) auto
  with rings_loop [OF n1 ids] show ?thesis by simp
qed

lemma assign_fsr_ids_gap:
  assumes len: "length (self_fuel_ring_fsr_ids self) = nat (num_fuel_rings self)"
    and gap: "self_gap_xs self \<noteq> None"
    and ids: "(nat (num_fuel_rings self) + 1 + 1) * NA \<le> length ids"
  shows "assign_fsr_ids ids NA self
         = Returned ()
             (self\<lparr>self_fuel_ring_fsr_ids :=
                     map (\<lambda>r. self_fuel_ring_fsr_ids self ! r @ ring_block ids NA r)
                       [0 ..< nat (num_fuel_rings self)],
                   self_gap_fsr_ids :=
                     self_gap_fsr_ids self @ ring_block ids NA (nat (num_fuel_rings self)),
                   self_clad_fsr_ids :=
                     self_clad_fsr_ids self @ ring_block ids NA (nat (num_fuel_rings self) + 1),
                   self_mod_fsr_ids := drop ((nat (num_fuel_rings self) + 1 + 1) * NA) ids\<rparr>,
              (nat (num_fuel_rings self) + 1 + 1) * NA)"
proof -
  let ?n = "nat (num_fuel_rings self)"
  let ?self1 = "self\<lparr>self_fuel_ring_fsr_ids :=
                  map (\<lambda>r. self_fuel_ring_fsr_ids self ! r @ ring_block ids NA r) [0 ..< ?n]\<rparr>"
  let ?self2 = "?self1\<lparr>self_gap_fsr_ids :=
                  self_gap_fsr_ids ?self1 @ take (length [0 ..< NA]) (drop (?n * NA) ids)\<rparr>"
  let ?self3 = "?self2\<lparr>self_clad_fsr_ids :=
                  self_clad_fsr_ids ?self2 @ take (length [0 ..< NA]) (drop (?n * NA + length [0 ..< NA]) ids)\<rparr>"
  have n2: "?n * NA \<le> length ids" using ids by simp
  have n3: "?n * NA + length [0 ..< NA] \<le> length ids" using ids by simp
  have n4: "(?n * NA + length [0 ..< NA]) + length [0 ..< NA] \<le> length ids" using ids by simp
  have s1: "for_each (\<lambda>r. for_each (append_ring_fsr_id ids r) [0 ..< NA]) [0 ..< ?n] (self, 0)
              = Returned () (?self1, ?n * NA)"
    by (rule rings_loop_all [OF len n2])
  have g1: "(self_gap_xs ?self1 \<noteq> None) = True" using gap by simp
  have s2: "for_each (append_gap_fsr_id ids) [0 ..< NA] (?self1, ?n * NA)
              = Returned () (?self2, ?n * NA + length [0 ..< NA])"
    by (rule gap_ids_loop [OF n3])
  have s3: "for_each (append_clad_fsr_id ids) [0 ..< NA] (?self2, ?n * NA + length [0 ..< NA])
              = Returned () (?self3, ?n * NA + length [0 ..< NA] + length [0 ..< NA])"
    by (rule clad_ids_loop [OF n4])
  have "assign_fsr_ids ids NA self
          = Returned () (?self3\<lparr>self_mod_fsr_ids :=
                drop (?n * NA + length [0 ..< NA] + length [0 ..< NA]) ids\<rparr>,
              ?n * NA + length [0 ..< NA] + length [0 ..< NA])"
    by (simp only: assign_fsr_ids_def py_range_def s1 and_then_def outcome.case fst_conv g1
        if_True s2 s3 prod.case)
  also have "\<dots> = Returned ()
             (self\<lparr>self_fuel_ring_fsr_ids :=
                     map (\<lambda>r. self_fuel_ring_fsr_ids self ! r @ ring_block ids NA r)
                       [0 ..< nat (num_fuel_rings self)],
                   self_gap_fsr_ids :=
                     self_gap_fsr_ids self @ ring_block ids NA (nat (num_fuel_rings self)),
                   self_clad_fsr_ids :=
                     self_clad_fsr_ids self @ ring_block ids NA (nat (num_fuel_rings self) + 1),
                   self_mod_fsr_ids := drop ((nat (num_fuel_rings self) + 1 + 1) * NA) ids\<rparr>,
              (nat (num_fuel_rings self) + 1 + 1) * NA)"
    by (simp add: ring_block_def algebra_simps)
  finally show ?thesis .
qed

lemma assign_fsr_ids_no_gap:
  assumes len: "length (self_fuel_ring_fsr_ids self) = nat (num_fuel_rings self)"
    and gap: "self_gap_xs self = None"
    and ids: "(nat (num_fuel_rings self) + 0 + 1) * NA \<le> length ids"
  shows "assign_fsr_ids ids NA self
         = Returned ()
             (self\<lparr>self_fuel_ring_fsr_ids :=
                     map (\<lambda>r. self_fuel_ring_fsr_ids self ! r @ ring_block ids NA r)
                       [0 ..< nat (num_fuel_rings self)],
                   self_clad_fsr_ids :=
                     self_clad_fsr_ids self @ ring_block ids NA (nat (num_fuel_rings self) + 0),
                   self_mod_fsr_ids := drop ((nat (num_fuel_rings self) + 0 + 1) * NA) ids\<rparr>,
              (nat (num_fuel_rings self) + 0 + 1) * NA)"
proof -
  let ?n = "nat (num_fuel_rings self)"
  let ?self1 = "self\<lparr>self_fuel_ring_fsr_ids :=
                  map (\<lambda>r. self_fuel_ring_fsr_ids self ! r @ ring_block ids NA r) [0 ..< ?n]\<rparr>"
  let ?self3 = "?self1\<lparr>self_clad_fsr_ids :=
                  self_clad_fsr_ids ?self1 @ take (length [0 ..< NA]) (drop (?n * NA) ids)\<rparr>"
  have n2: "?n * NA \<le> length ids" using ids by simp
  have n3: "?n * NA + length [0 ..< NA] \<le> length ids" using ids by simp
  have s1: "for_each (\<lambda>r. for_each (append_ring_fsr_id ids r) [0 ..< NA]) [0 ..< ?n] (self, 0)
              = Returned () (?self1, ?n * NA)"
    by (rule rings_loop_all [OF len n2])
  have g1: "(self_gap_xs ?self1 \<noteq> None) = False" using gap by simp
  have s3: "for_each (append_clad_fsr_id ids) [0 ..< NA] (?self1, ?n * NA)
              = Returned () (?self3, ?n * NA + length [0 ..< NA])"
    by (rule clad_ids_loop [OF n3])
  have "assign_fsr_ids ids NA self
          = Returned () (?self3\<lparr>self_mod_fsr_ids :=
                drop (?n * NA + length [0 ..< NA]) ids\<rparr>,
              ?n * NA + length [0 ..< NA])"
    by (simp only: assign_fsr_ids_def py_range_def s1 and_then_def outcome.case fst_conv g1
        if_False s3 prod.case)
  also have "\<dots> = Returned ()
             (self\<lparr>self_fuel_ring_fsr_ids :=
                     map (\<lambda>r. self_fuel_ring_fsr_ids self ! r @ ring_block ids NA r)
                       [0 ..< nat (num_fuel_rings self)],
                   self_clad_fsr_ids :=
                     self_clad_fsr_ids self @ ring_block ids NA (nat (num_fuel_rings self) + 0),
                   self_mod_fsr_ids := drop ((nat (num_fuel_rings self) + 0 + 1) * NA) ids\<rparr>,
              (nat (num_fuel_rings self) + 0 + 1) * NA)"
    by (simp add: ring_block_def algebra_simps)
  finally show ?thesis .
qed

lemma make_moc_cell_unbuilt:
  "\<not> xs_built self \<Longrightarrow> make_moc_cell G moderator_xs dx dy pintype self = Raised RuntimeError self"
  unfolding make_moc_cell_def xs_built_def by (simp only: de_Morgan_conj not_imp not_not) auto

lemma xs_built_checks:
  assumes "xs_built self"
  shows "(int (length (self_fuel_ring_xs self)) \<noteq> num_fuel_rings self) = False"
    and "(gap self \<noteq> None \<and> self_gap_xs self = None) = False"
    and "(self_clad_xs self = None) = False"
  using assms by (auto simp: xs_built_def)

lemma make_moc_cell_small:
  assumes "xs_built self" and "footprint_too_small self dx dy pintype"
  shows "make_moc_cell G moderator_xs dx dy pintype self = Raised ValueError self"
  unfolding make_moc_cell_def
  by (simp only: xs_built_checks [OF assms(1)] check_dx_dy_footprint assms(2) if_True if_False
      option.case)

lemma make_moc_cell_run:
  assumes "xs_built self" and "\<not> footprint_too_small self dx dy pintype"
  shows "make_moc_cell G moderator_xs dx dy pintype self
           = (case assign_fsr_ids (sorted_fsr_ids G moderator_xs dx dy pintype self)
                     (angular_divisions pintype) self of
                Returned u st \<Rightarrow> Returned (moc_cell G moderator_xs dx dy pintype self) (fst st)
              | Raised e st \<Rightarrow> Raised e (fst st))"
  unfolding make_moc_cell_def sorted_fsr_ids_def moc_cell_def Let_def
  by (simp only: xs_built_checks [OF assms(1)] check_dx_dy_footprint assms(2) if_True if_False
      option.case)

lemma make_moc_cell_assigned:
  fixes self :: "('mat, 'd, 'm) FuelPin" and G :: "('d, 'cell) geometry_lib"
    and moderator_xs :: "'d CrossSection" and dx dy :: real and pintype :: PinCellType
  defines "ids \<equiv> sorted_fsr_ids G moderator_xs dx dy pintype self"
    and "NA \<equiv> angular_divisions pintype"
    and "n \<equiv> nat (num_fuel_rings self)"
  assumes built: "xs_built self" and fits: "\<not> footprint_too_small self dx dy pintype"
    and inv: "self_gap_xs self \<noteq> None \<longrightarrow> gap self \<noteq> None"
    and len: "length (self_fuel_ring_fsr_ids self) = n"
    and enough: "(n + gap_regions self + 1) * NA \<le> length ids"
  shows "make_moc_cell G moderator_xs dx dy pintype self
                = Returned (moc_cell G moderator_xs dx dy pintype self)
                   (self\<lparr>self_fuel_ring_fsr_ids :=
                       map (\<lambda>r. self_fuel_ring_fsr_ids self ! r @ ring_block ids NA r) [0 ..< n],
                     self_gap_fsr_ids := self_gap_fsr_ids self
                       @ (if gap self \<noteq> None then ring_block ids NA n else []),
                     self_clad_fsr_ids := self_clad_fsr_ids self
                       @ ring_block ids NA (n + gap_regions self),
                     self_mod_fsr_ids := drop ((n + gap_regions self + 1) * NA) ids\<rparr>)"
proof (cases "gap self = None")
  case True
  then have nogap: "self_gap_xs self = None" using inv by auto
  have g: "gap_regions self = 0" using True by (simp add: gap_regions_def)
  have len': "length (self_fuel_ring_fsr_ids self) = nat (num_fuel_rings self)"
    using len by (simp add: n_def)
  have ids': "(nat (num_fuel_rings self) + 0 + 1) * NA \<le> length ids"
    using enough g by (simp add: n_def)
  have run: "make_moc_cell G moderator_xs dx dy pintype self
           = (case assign_fsr_ids ids NA self of
                Returned u st \<Rightarrow> Returned (moc_cell G moderator_xs dx dy pintype self) (fst st)
              | Raised e st \<Rightarrow> Raised e (fst st))"
    unfolding ids_def NA_def by (rule make_moc_cell_run [OF built fits])
  show ?thesis
    unfolding run assign_fsr_ids_no_gap [OF len' nogap ids'] n_def [symmetric]
    using True g by simp
next
  case False
  then have isgap: "self_gap_xs self \<noteq> None" using built by (auto simp: xs_built_def)
  have g: "gap_regions self = 1" using False by (simp add: gap_regions_def)
  have len': "length (self_fuel_ring_fsr_ids self) = nat (num_fuel_rings self)"
    using len by (simp add: n_def)
  have ids': "(nat (num_fuel_rings self) + 1 + 1) * NA \<le> length ids"
    using enough g by (simp add: n_def)
  have run: "make_moc_cell G moderator_xs dx dy pintype self
           = (case assign_fsr_ids ids NA self of
                Returned u st \<Rightarrow> Returned (moc_cell G moderator_xs dx dy pintype self) (fst st)
              | Raised e st \<Rightarrow> Raised e (fst st))"
    unfolding ids_def NA_def by (rule make_moc_cell_run [OF built fits])
  show ?thesis
    unfolding run assign_fsr_ids_gap [OF len' isgap ids'] n_def [symmetric]
    using False g by simp
qed

lemma blocks_partition_no_gap:
  assumes "(n + 0 + 1) * NA \<le> length ids"
  shows "concat (map (ring_block ids NA) [0 ..< n]) @ [] @ ring_block ids NA (n + 0)
           @ drop ((n + 0 + 1) * NA) ids = ids"
proof -
  have "Suc n * NA \<le> length ids" using assms by simp
  then have "concat (map (ring_block ids NA) [0 ..< Suc n]) = take (Suc n * NA) ids"
    by (rule concat_ring_blocks)
  then have "concat (map (ring_block ids NA) [0 ..< n]) @ ring_block ids NA n
               = take (Suc n * NA) ids"
    by simp
  then have "(concat (map (ring_block ids NA) [0 ..< n]) @ ring_block ids NA n)
               @ drop (Suc n * NA) ids = ids"
    by (simp only: append_take_drop_id)
  then show ?thesis by simp
qed

lemma blocks_partition_gap:
  assumes "(n + 1 + 1) * NA \<le> length ids"
  shows "concat (map (ring_block ids NA) [0 ..< n]) @ ring_block ids NA n
           @ ring_block ids NA (n + 1) @ drop ((n + 1 + 1) * NA) ids = ids"
proof -
  have "Suc (Suc n) * NA \<le> length ids" using assms by simp
  then have "concat (map (ring_block ids NA) [0 ..< Suc (Suc n)]) = take (Suc (Suc n) * NA) ids"
    by (rule concat_ring_blocks)
  then have "concat (map (ring_block ids NA) [0 ..< n]) @ ring_block ids NA n
               @ ring_block ids NA (Suc n) = take (Suc (Suc n) * NA) ids"
    by simp
  then have "(concat (map (ring_block ids NA) [0 ..< n]) @ ring_block ids NA n
               @ ring_block ids NA (Suc n)) @ drop (Suc (Suc n) * NA) ids = ids"
    by (simp only: append_take_drop_id)
  then show ?thesis by simp
qed

text \<open>
  C7. \<^verbatim>\<open>make_moc_cell\<close> raises \<^verbatim>\<open>RuntimeError\<close> when the fuel, gap (for a pin with a
  gap) or clad cross sections are not all built, and \<^verbatim>\<open>ValueError\<close> when they are
  built and the footprint is too small for the split type; the pin is untouched in both
  cases. Otherwise, on a pin with one identifier list per ring whose gap cross section
  exists only if it has a gap, and for a cell with at least \<open>(N + g + 1) \<sqdot> NA\<close>
  identifiers (\<open>g\<close> is 1 with a gap and 0 without), it returns the cell and hands out
  the sorted identifiers in order: block \<open>r\<close> of \<open>NA\<close> identifiers is appended to the list
  of ring \<open>r\<close>, the next block to the gap list if the pin has a gap, the next to the clad
  list, and the moderator list becomes all that remain. The blocks and the remainder
  together are the sorted identifiers. \<open>NA\<close> is 8 for the full cell, 4 for a half cell
  and 2 for a quarter cell.
\<close>

theorem make_moc_cell_regions:
  fixes self :: "('mat, 'd, 'm) FuelPin" and G :: "('d, 'cell) geometry_lib"
  shows "(\<not> xs_built self \<longrightarrow>
            make_moc_cell G moderator_xs dx dy pintype self = Raised RuntimeError self)
       \<and> (xs_built self \<and> footprint_too_small self dx dy pintype \<longrightarrow>
            make_moc_cell G moderator_xs dx dy pintype self = Raised ValueError self)
       \<and> (xs_built self \<and> \<not> footprint_too_small self dx dy pintype
            \<and> (self_gap_xs self \<noteq> None \<longrightarrow> gap self \<noteq> None)
            \<and> length (self_fuel_ring_fsr_ids self) = nat (num_fuel_rings self)
            \<and> (nat (num_fuel_rings self) + gap_regions self + 1) * angular_divisions pintype
                 \<le> length (sorted_fsr_ids G moderator_xs dx dy pintype self)
          \<longrightarrow> make_moc_cell G moderator_xs dx dy pintype self
                = Returned (moc_cell G moderator_xs dx dy pintype self)
                   (self\<lparr>self_fuel_ring_fsr_ids :=
                       map (\<lambda>r. self_fuel_ring_fsr_ids self ! r
                                 @ ring_block (sorted_fsr_ids G moderator_xs dx dy pintype self)
                                     (angular_divisions pintype) r)
                         [0 ..< nat (num_fuel_rings self)],
                     self_gap_fsr_ids := self_gap_fsr_ids self
                       @ (if gap self \<noteq> None
                          then ring_block (sorted_fsr_ids G moderator_xs dx dy pintype self)
                                 (angular_divisions pintype) (nat (num_fuel_rings self))
                          else []),
                     self_clad_fsr_ids := self_clad_fsr_ids self
                       @ ring_block (sorted_fsr_ids G moderator_xs dx dy pintype self)
                           (angular_divisions pintype)
                           (nat (num_fuel_rings self) + gap_regions self),
                     self_mod_fsr_ids :=
                       drop ((nat (num_fuel_rings self) + gap_regions self + 1)
                               * angular_divisions pintype)
                         (sorted_fsr_ids G moderator_xs dx dy pintype self)\<rparr>)
              \<and> concat (map (ring_block (sorted_fsr_ids G moderator_xs dx dy pintype self)
                               (angular_divisions pintype)) [0 ..< nat (num_fuel_rings self)])
                  @ (if gap self \<noteq> None
                     then ring_block (sorted_fsr_ids G moderator_xs dx dy pintype self)
                            (angular_divisions pintype) (nat (num_fuel_rings self))
                     else [])
                  @ ring_block (sorted_fsr_ids G moderator_xs dx dy pintype self)
                      (angular_divisions pintype) (nat (num_fuel_rings self) + gap_regions self)
                  @ drop ((nat (num_fuel_rings self) + gap_regions self + 1)
                            * angular_divisions pintype)
                      (sorted_fsr_ids G moderator_xs dx dy pintype self)
                = sorted_fsr_ids G moderator_xs dx dy pintype self
              \<and> sorted (sorted_fsr_ids G moderator_xs dx dy pintype self))
       \<and> angular_divisions Full = 8
       \<and> angular_divisions XN = 4 \<and> angular_divisions XP = 4
       \<and> angular_divisions YN = 4 \<and> angular_divisions YP = 4
       \<and> angular_divisions I = 2 \<and> angular_divisions II = 2
       \<and> angular_divisions III = 2 \<and> angular_divisions IV = 2"
proof -
  let ?ids = "sorted_fsr_ids G moderator_xs dx dy pintype self"
  let ?NA = "angular_divisions pintype"
  let ?n = "nat (num_fuel_rings self)"
  have part: "concat (map (ring_block ?ids ?NA) [0 ..< ?n])
                @ (if gap self \<noteq> None then ring_block ?ids ?NA ?n else [])
                @ ring_block ?ids ?NA (?n + gap_regions self)
                @ drop ((?n + gap_regions self + 1) * ?NA) ?ids = ?ids"
    if "(?n + gap_regions self + 1) * ?NA \<le> length ?ids"
  proof (cases "gap self = None")
    case True
    then have g: "gap_regions self = 0" by (simp add: gap_regions_def)
    have "(?n + 0 + 1) * ?NA \<le> length ?ids" using that g by simp
    from blocks_partition_no_gap [OF this] show ?thesis
      unfolding g using True by simp
  next
    case False
    then have g: "gap_regions self = 1" by (simp add: gap_regions_def)
    have "(?n + 1 + 1) * ?NA \<le> length ?ids" using that g by simp
    from blocks_partition_gap [OF this] show ?thesis
      unfolding g using False by simp
  qed
  have srt: "sorted ?ids" by (simp add: sorted_fsr_ids_def)
  have na: "angular_divisions Full = 8" "angular_divisions XN = 4" "angular_divisions XP = 4"
       "angular_divisions YN = 4" "angular_divisions YP = 4"
       "angular_divisions I = 2" "angular_divisions II = 2"
       "angular_divisions III = 2" "angular_divisions IV = 2"
    by (simp_all add: angular_divisions_def)
  show ?thesis
  proof (intro conjI impI)
    assume "\<not> xs_built self"
    then show "make_moc_cell G moderator_xs dx dy pintype self = Raised RuntimeError self"
      by (rule make_moc_cell_unbuilt)
  next
    assume "xs_built self \<and> footprint_too_small self dx dy pintype"
    then show "make_moc_cell G moderator_xs dx dy pintype self = Raised ValueError self"
      by (simp add: make_moc_cell_small)
  next
    assume h: "xs_built self \<and> \<not> footprint_too_small self dx dy pintype
            \<and> (self_gap_xs self \<noteq> None \<longrightarrow> gap self \<noteq> None)
            \<and> length (self_fuel_ring_fsr_ids self) = ?n
            \<and> (?n + gap_regions self + 1) * ?NA \<le> length ?ids"
    then have h1: "xs_built self" and h2: "\<not> footprint_too_small self dx dy pintype"
      and h3: "self_gap_xs self \<noteq> None \<longrightarrow> gap self \<noteq> None"
      and h4: "length (self_fuel_ring_fsr_ids self) = ?n"
      and h5: "(?n + gap_regions self + 1) * ?NA \<le> length ?ids"
      by blast+
    show "make_moc_cell G moderator_xs dx dy pintype self
                = Returned (moc_cell G moderator_xs dx dy pintype self)
                   (self\<lparr>self_fuel_ring_fsr_ids :=
                       map (\<lambda>r. self_fuel_ring_fsr_ids self ! r @ ring_block ?ids ?NA r) [0 ..< ?n],
                     self_gap_fsr_ids := self_gap_fsr_ids self
                       @ (if gap self \<noteq> None then ring_block ?ids ?NA ?n else []),
                     self_clad_fsr_ids := self_clad_fsr_ids self
                       @ ring_block ?ids ?NA (?n + gap_regions self),
                     self_mod_fsr_ids := drop ((?n + gap_regions self + 1) * ?NA) ?ids\<rparr>)"
      by (rule make_moc_cell_assigned [OF h1 h2 h3 h4 h5])
    show "concat (map (ring_block ?ids ?NA) [0 ..< ?n])
                @ (if gap self \<noteq> None then ring_block ?ids ?NA ?n else [])
                @ ring_block ?ids ?NA (?n + gap_regions self)
                @ drop ((?n + gap_regions self + 1) * ?NA) ?ids = ?ids"
      using h5 by (rule part)
    show "sorted ?ids" by (rule srt)
  qed (rule na)+
qed

theorem make_moc_cell_regions_witness:
  "make_moc_cell geo0 mod0 4 4 I pin2
     = Returned [7, 6, 5, 4, 3, 2, 1, 0]
         (pin2\<lparr>self_fuel_ring_fsr_ids := [[0, 1]], self_clad_fsr_ids := [2, 3],
               self_mod_fsr_ids := [4, 5, 6, 7]\<rparr>)
   \<and> make_moc_cell geo0 mod0 4 4 I pin1 = Raised RuntimeError pin1
   \<and> make_moc_cell geo0 mod0 2 4 I pin2 = Raised ValueError pin2"
proof -
  have ids: "sorted_fsr_ids geo0 mod0 4 4 I pin2 = [0, 1, 2, 3, 4, 5, 6, 7]"
    by (simp add: sorted_fsr_ids_def moc_cell_def geo0_def)
  have cell: "moc_cell geo0 mod0 4 4 I pin2 = [7, 6, 5, 4, 3, 2, 1, 0]"
    by (simp add: moc_cell_def geo0_def)
  have built: "xs_built pin2"
    by (simp add: xs_built_def pin2_def pin1_def pin0_def num_fuel_rings_def gap_def)
  have unbuilt: "\<not> xs_built pin1"
    by (simp add: xs_built_def pin1_def pin0_def num_fuel_rings_def)
  have fits: "\<not> footprint_too_small pin2 4 4 I"
    by (simp add: footprint_too_small_def pin2_def pin1_def pin0_def clad_radius_def)
  have small: "footprint_too_small pin2 2 4 I"
    by (simp add: footprint_too_small_def pin2_def pin1_def pin0_def clad_radius_def)
  have n: "nat (num_fuel_rings pin2) = 1"
    by (simp add: pin2_def pin1_def pin0_def num_fuel_rings_def)
  have g: "gap_regions pin2 = 0" "gap pin2 = None"
    by (simp_all add: gap_regions_def gap_def pin2_def pin1_def pin0_def)
  have na: "angular_divisions I = 2" by (simp add: angular_divisions_def)
  have old: "self_fuel_ring_fsr_ids pin2 = [[]]" "self_gap_fsr_ids pin2 = []"
    "self_clad_fsr_ids pin2 = []" "self_gap_xs pin2 = None"
    by (simp_all add: pin2_def pin1_def pin0_def)
  have pre: "xs_built pin2 \<and> \<not> footprint_too_small pin2 4 4 I
            \<and> (self_gap_xs pin2 \<noteq> None \<longrightarrow> gap pin2 \<noteq> None)
            \<and> length (self_fuel_ring_fsr_ids pin2) = nat (num_fuel_rings pin2)
            \<and> (nat (num_fuel_rings pin2) + gap_regions pin2 + 1) * angular_divisions I
                 \<le> length (sorted_fsr_ids geo0 mod0 4 4 I pin2)"
    using built fits by (simp add: n g na old ids)
  note inst = make_moc_cell_regions [where self = pin2 and G = geo0 and moderator_xs = mod0
      and dx = 4 and dy = 4 and pintype = I]
  from inst pre
  have "make_moc_cell geo0 mod0 4 4 I pin2
                = Returned (moc_cell geo0 mod0 4 4 I pin2)
                   (pin2\<lparr>self_fuel_ring_fsr_ids :=
                       map (\<lambda>r. self_fuel_ring_fsr_ids pin2 ! r
                                 @ ring_block (sorted_fsr_ids geo0 mod0 4 4 I pin2)
                                     (angular_divisions I) r)
                         [0 ..< nat (num_fuel_rings pin2)],
                     self_gap_fsr_ids := self_gap_fsr_ids pin2
                       @ (if gap pin2 \<noteq> None
                          then ring_block (sorted_fsr_ids geo0 mod0 4 4 I pin2)
                                 (angular_divisions I) (nat (num_fuel_rings pin2))
                          else []),
                     self_clad_fsr_ids := self_clad_fsr_ids pin2
                       @ ring_block (sorted_fsr_ids geo0 mod0 4 4 I pin2)
                           (angular_divisions I)
                           (nat (num_fuel_rings pin2) + gap_regions pin2),
                     self_mod_fsr_ids :=
                       drop ((nat (num_fuel_rings pin2) + gap_regions pin2 + 1)
                               * angular_divisions I)
                         (sorted_fsr_ids geo0 mod0 4 4 I pin2)\<rparr>)"
    by blast
  then have a: "make_moc_cell geo0 mod0 4 4 I pin2
     = Returned [7, 6, 5, 4, 3, 2, 1, 0]
         (pin2\<lparr>self_fuel_ring_fsr_ids := [[0, 1]], self_clad_fsr_ids := [2, 3],
               self_mod_fsr_ids := [4, 5, 6, 7]\<rparr>)"
    unfolding ids cell n g na old
    by (simp add: ring_block_def pin2_def pin1_def pin0_def)
  from make_moc_cell_regions [where self = pin1 and G = geo0 and moderator_xs = mod0
      and dx = 4 and dy = 4 and pintype = I] unbuilt
  have b: "make_moc_cell geo0 mod0 4 4 I pin1 = Raised RuntimeError pin1" by blast
  from make_moc_cell_regions [where self = pin2 and G = geo0 and moderator_xs = mod0
      and dx = 2 and dy = 4 and pintype = I] built small
  have c: "make_moc_cell geo0 mod0 2 4 I pin2 = Raised ValueError pin2" by blast
  show ?thesis using a b c by (intro conjI)
qed

subsection \<open>Depletion: the loops over the nuclides\<close>

lemma fill_densities_general:
  "i + length nuclides \<le> length N \<Longrightarrow>
   fill_densities density nuclides i N
     = Inr (take i N @ map density nuclides @ drop (i + length nuclides) N)"
proof (induction nuclides arbitrary: i N)
  case Nil
  then show ?case by simp
next
  case (Cons nuclide rest)
  then have i: "i < length N" by simp
  have len: "Suc i + length rest \<le> length (N[i := density nuclide])" using Cons.prems by simp
  have "take (Suc i) (N[i := density nuclide]) = take i N @ [density nuclide]"
    using i by (simp add: take_Suc_conv_app_nth)
  then show ?case
    using Cons.IH [OF len] i by simp
qed

lemma fill_densities_zeros:
  "fill_densities density nuclides 0 (replicate (length nuclides) 0) = Inr (map density nuclides)"
  by (simp add: fill_densities_general)

lemma collect_positive_general:
  "i + length nuclides \<le> length N \<Longrightarrow>
   collect_positive nuclides i N added
     = Inr (added @ positive_densities nuclides (drop i N))"
proof (induction nuclides arbitrary: i added)
  case Nil
  then show ?case by (simp add: positive_densities_def)
next
  case (Cons nuclide rest)
  then have i: "i < length N" by simp
  have len: "Suc i + length rest \<le> length N" using Cons.prems by simp
  have "drop i N = N ! i # drop (Suc i) N" using i by (simp add: Cons_nth_drop_Suc)
  then show ?case
    using Cons.IH [OF len] i by (simp add: positive_densities_def)
qed

lemma collect_positive_all:
  "length nuclides \<le> length N \<Longrightarrow>
   collect_positive nuclides 0 N [] = Inr (positive_densities nuclides N)"
  using collect_positive_general [of 0 nuclides N "[]"] by simp


subsection \<open>Depletion: one pass of the predictor\<close>

lemma py_store_nat: "i < length xs \<Longrightarrow> py_store xs (int i) v = Inr (xs[i := v])"
  by (simp add: py_store_def)

lemma py_index_last: "xs \<noteq> [] \<Longrightarrow> py_index xs (- 1) = Inr (last xs)"
  by (cases xs rule: rev_cases) (simp_all add: py_index_def)

lemma py_store_last: "xs \<noteq> [] \<Longrightarrow> py_store xs (- 1) v = Inr (butlast xs @ [v])"
  by (cases xs rule: rev_cases) (simp_all add: py_store_def)

lemma update_last: "xs \<noteq> [] \<Longrightarrow> xs[length xs - 1 := v] = butlast xs @ [v]"
  by (cases xs rule: rev_cases) simp_all

lemma py_eval_Inr: "py_eval (Inr v) s k = k v"
  by (simp add: py_eval_def)

lemma predict_finish_result:
  assumes "r < length (self_fuel_ring_materials self)" and "length nuclides \<le> length N"
  shows "predict_finish E r nuclides mat N self
         = Returned () (self\<lparr>self_fuel_ring_materials := (self_fuel_ring_materials self)
             [r := self_fuel_ring_materials self ! r
                   @ [Material E (positive_densities nuclides N) (temperature E mat)]]\<rparr>)"
  unfolding predict_finish_def
  by (simp only: collect_positive_all [OF assms(2)] py_index_nat [OF assms(1)] py_eval_Inr)

lemma predict_ce_li_result:
  assumes r: "r < length (self_fuel_ring_materials self)"
    and len: "length nuclides \<le> length N"
    and shapes: "engine_shapes E"
  shows "predict_ce_li E dt r A0 nuclides mat N self
         = Returned () (self\<lparr>self_fuel_ring_current_dep_mats :=
               (self_fuel_ring_current_dep_mats self)
                 [r := Some (mat_idiv E (mat_imul E A0 dt) dt)],
             self_fuel_ring_materials := (self_fuel_ring_materials self)
               [r := self_fuel_ring_materials self ! r
                     @ [Material E (positive_densities nuclides
                                      (exponential_product E (mat_imul E A0 dt) N))
                          (temperature E mat)]]\<rparr>)"
proof -
  let ?self1 = "self\<lparr>self_fuel_ring_current_dep_mats :=
                  (self_fuel_ring_current_dep_mats self)
                    [r := Some (mat_idiv E (mat_imul E A0 dt) dt)]\<rparr>"
  have r1: "r < length (self_fuel_ring_materials ?self1)" using r by simp
  have len1: "length nuclides \<le> length (exponential_product E (mat_imul E A0 dt) N)"
    using len shapes by (simp add: engine_shapes_def)
  show ?thesis
    unfolding predict_ce_li_def Let_def
    by (simp add: predict_finish_result [OF r1 len1])
qed

lemma predict_le_qi_result:
  assumes r: "r < length (self_fuel_ring_materials self)"
    and len: "length nuclides \<le> length N"
    and shapes: "engine_shapes E" and p: "p \<noteq> 0"
  shows "predict_le_qi E dt p r Am1 A0 nuclides mat N self
         = Returned () (self\<lparr>self_fuel_ring_materials := (self_fuel_ring_materials self)
               [r := self_fuel_ring_materials self ! r
                     @ [Material E (positive_densities nuclides
                                      (exponential_product E (predictor_F1 E dt p Am1 A0)
                                         (exponential_product E (predictor_F2 E dt p Am1 A0) N)))
                          (temperature E mat)]]\<rparr>)"
proof -
  have nz: "12 * p \<noteq> 0" using p by simp
  have len1: "length nuclides \<le> length (exponential_product E (predictor_F1 E dt p Am1 A0)
                                         (exponential_product E (predictor_F2 E dt p Am1 A0) N))"
    using len shapes by (simp add: engine_shapes_def)
  show ?thesis
    unfolding predict_le_qi_def Let_def
    by (simp only: py_div_nonzero [OF nz] py_eval_Inr predictor_F1_def [symmetric]
        predictor_F2_def [symmetric] predict_finish_result [OF r len1])
qed

lemma predict_ring_result:
  assumes rm: "r < length (self_fuel_ring_materials self)"
    and rf: "r < length (self_fuel_ring_flux_spectra self)"
    and rp: "r < length (self_fuel_ring_prev_dep_mats self)"
    and rc: "r < length (self_fuel_ring_current_dep_mats self)"
    and ne: "self_fuel_ring_materials self ! r \<noteq> []"
    and shapes: "engine_shapes E"
    and nz: "\<And>Am1 p. self_fuel_ring_prev_dep_mats self ! r = Some Am1 \<Longrightarrow> dtm1 = Some p \<Longrightarrow> p \<noteq> 0"
  shows "predict_ring E dt dtm1 r self
         = Returned () (self\<lparr>self_fuel_ring_current_dep_mats :=
               (self_fuel_ring_current_dep_mats self)
                 [r := Some (predicted_current E dt dtm1 (self_fuel_ring_prev_dep_mats self ! r)
                       (build_depletion_matrix E (last (self_fuel_ring_materials self ! r))
                          (self_fuel_ring_flux_spectra self ! r)))],
             self_fuel_ring_materials := (self_fuel_ring_materials self)
               [r := predicted_ring_materials E dt dtm1 (self_fuel_ring_prev_dep_mats self ! r)
                       (self_fuel_ring_materials self ! r) (self_fuel_ring_flux_spectra self ! r)]\<rparr>)"
proof -
  let ?mats = "self_fuel_ring_materials self ! r"
  let ?flux = "self_fuel_ring_flux_spectra self ! r"
  let ?prev = "self_fuel_ring_prev_dep_mats self ! r"
  let ?A0 = "build_depletion_matrix E (last ?mats) ?flux"
  let ?mat = "clear_all_micro_xs_data E (last ?mats)"
  let ?nucl = "matrix_nuclides E ?A0"
  let ?N = "map (atom_density E ?mat) ?nucl"
  let ?self1 = "self\<lparr>self_fuel_ring_current_dep_mats :=
                    (self_fuel_ring_current_dep_mats self)[r := Some ?A0],
                  self_fuel_ring_materials := (self_fuel_ring_materials self)
                    [r := ?mats[length ?mats - 1 := ?mat]]\<rparr>"
  have size: "matrix_size E ?A0 = length ?nucl"
    using shapes by (simp add: engine_shapes_def)
  have head: "predict_ring E dt dtm1 r self
               = (case (?prev, dtm1) of
                    (Some Am1, Some p) \<Rightarrow> predict_le_qi E dt p r Am1 ?A0 ?nucl ?mat ?N ?self1
                  | _ \<Rightarrow> predict_ce_li E dt r ?A0 ?nucl ?mat ?N ?self1)"
    unfolding predict_ring_def Let_def
    by (simp add: py_index_nat [OF rf] py_index_nat [OF rm] py_index_last [OF ne]
        py_store_nat [OF rc] py_eval_Inr size fill_densities_zeros py_index_nat [OF rp])
  have r1: "r < length (self_fuel_ring_materials ?self1)" using rm by simp
  have lenN: "length ?nucl \<le> length ?N" by simp
  have mats1: "self_fuel_ring_materials ?self1 ! r = butlast ?mats @ [?mat]"
    using rm update_last [OF ne] by simp
  show ?thesis
  proof (cases "\<exists>Am1 p. ?prev = Some Am1 \<and> dtm1 = Some p")
    case True
    then obtain Am1 p where ap: "?prev = Some Am1" "dtm1 = Some p" by blast
    have p: "p \<noteq> 0" using nz ap by blast
    have "predict_ring E dt dtm1 r self = predict_le_qi E dt p r Am1 ?A0 ?nucl ?mat ?N ?self1"
      unfolding head by (simp add: ap)
    also have "\<dots> = Returned () (?self1\<lparr>self_fuel_ring_materials :=
               (self_fuel_ring_materials ?self1)
               [r := self_fuel_ring_materials ?self1 ! r
                     @ [Material E (positive_densities ?nucl
                                      (exponential_product E (predictor_F1 E dt p Am1 ?A0)
                                         (exponential_product E (predictor_F2 E dt p Am1 ?A0) ?N)))
                          (temperature E ?mat)]]\<rparr>)"
      by (rule predict_le_qi_result [OF r1 lenN shapes p])
    finally show ?thesis
      unfolding mats1
      by (simp add: predicted_ring_materials_def predicted_vector_def predicted_current_def ap
          Let_def)
  next
    case False
    have "predict_ring E dt dtm1 r self = predict_ce_li E dt r ?A0 ?nucl ?mat ?N ?self1"
      unfolding head using False by (auto split: option.splits)
    also have "\<dots> = Returned () (?self1\<lparr>self_fuel_ring_current_dep_mats :=
               (self_fuel_ring_current_dep_mats ?self1)
                 [r := Some (mat_idiv E (mat_imul E ?A0 dt) dt)],
             self_fuel_ring_materials := (self_fuel_ring_materials ?self1)
               [r := self_fuel_ring_materials ?self1 ! r
                     @ [Material E (positive_densities ?nucl
                                      (exponential_product E (mat_imul E ?A0 dt) ?N))
                          (temperature E ?mat)]]\<rparr>)"
      by (rule predict_ce_li_result [OF r1 lenN shapes])
    finally show ?thesis
      unfolding mats1
      using False
      by (auto simp: predicted_ring_materials_def predicted_vector_def predicted_current_def
          Let_def split: option.splits)
  qed
qed

subsection \<open>Depletion: the predictor over all rings\<close>

lemma map_upt_if_all: "map (\<lambda>r. if r < n then f r else g r) [0 ..< n] = map f [0 ..< n]"
  by (rule map_cong) auto

lemma map_upt_if_step:
  assumes "k < n"
  shows "(map (\<lambda>r. if r < k then f r else g r) [0 ..< n])[k := f k]
         = map (\<lambda>r. if r < Suc k then f r else g r) [0 ..< n]"
proof -
  have "(map (\<lambda>r. if r < k then f r else g r) [0 ..< n])[k := f k]
          = map (\<lambda>r. if r = k then f k else if r < k then f r else g r) [0 ..< n]"
    using assms by (rule map_upt_update)
  also have "\<dots> = map (\<lambda>r. if r < Suc k then f r else g r) [0 ..< n]"
    by (rule map_cong) (auto simp: less_Suc_eq)
  finally show ?thesis .
qed

lemma predict_rings_loop:
  fixes self :: "('mat, 'd, 'm) FuelPin" and E :: "('mat, 'm) depletion_lib"
    and dt :: real and dtm1 :: "real option"
  defines "n \<equiv> nat (num_fuel_rings self)"
  defines "pc \<equiv> \<lambda>r. Some (predicted_current E dt dtm1 (self_fuel_ring_prev_dep_mats self ! r)
                       (build_depletion_matrix E (last (self_fuel_ring_materials self ! r))
                          (self_fuel_ring_flux_spectra self ! r)))"
  defines "pm \<equiv> \<lambda>r. predicted_ring_materials E dt dtm1 (self_fuel_ring_prev_dep_mats self ! r)
                       (self_fuel_ring_materials self ! r) (self_fuel_ring_flux_spectra self ! r)"
  assumes cons: "rings_consistent self"
    and ne: "\<forall>r<n. self_fuel_ring_materials self ! r \<noteq> []"
    and shapes: "engine_shapes E" and nz: "dtm1 \<noteq> Some 0"
  shows "k \<le> n \<Longrightarrow> for_each (predict_ring E dt dtm1) [0 ..< k] self
         = Returned () (self\<lparr>self_fuel_ring_current_dep_mats :=
               map (\<lambda>r. if r < k then pc r else self_fuel_ring_current_dep_mats self ! r) [0 ..< n],
             self_fuel_ring_materials :=
               map (\<lambda>r. if r < k then pm r else self_fuel_ring_materials self ! r) [0 ..< n]\<rparr>)"
proof (induction k)
  case 0
  have l1: "length (self_fuel_ring_current_dep_mats self) = n"
    and l2: "length (self_fuel_ring_materials self) = n"
    using cons by (simp_all add: rings_consistent_def n_def)
  have m1: "map (\<lambda>r. self_fuel_ring_current_dep_mats self ! r) [0 ..< n]
               = self_fuel_ring_current_dep_mats self"
    unfolding l1 [symmetric] by (rule map_nth)
  have m2: "map (\<lambda>r. self_fuel_ring_materials self ! r) [0 ..< n] = self_fuel_ring_materials self"
    unfolding l2 [symmetric] by (rule map_nth)
  show ?case by (simp add: m1 m2)
next
  case (Suc k)
  let ?cur = "map (\<lambda>r. if r < k then pc r else self_fuel_ring_current_dep_mats self ! r) [0 ..< n]"
  let ?mts = "map (\<lambda>r. if r < k then pm r else self_fuel_ring_materials self ! r) [0 ..< n]"
  let ?self1 = "self\<lparr>self_fuel_ring_current_dep_mats := ?cur, self_fuel_ring_materials := ?mts\<rparr>"
  have k: "k < n" using Suc.prems by simp
  have front: "for_each (predict_ring E dt dtm1) [0 ..< k] self = Returned () ?self1"
    using Suc.IH k by simp
  have lens: "length (self_fuel_ring_flux_spectra self) = n"
    "length (self_fuel_ring_prev_dep_mats self) = n"
    using cons by (simp_all add: rings_consistent_def n_def)
  have rm: "k < length (self_fuel_ring_materials ?self1)" using k by simp
  have rf: "k < length (self_fuel_ring_flux_spectra ?self1)" using k lens by simp
  have rp: "k < length (self_fuel_ring_prev_dep_mats ?self1)" using k lens by simp
  have rc: "k < length (self_fuel_ring_current_dep_mats ?self1)" using k by simp
  have same: "self_fuel_ring_materials ?self1 ! k = self_fuel_ring_materials self ! k"
    using k by simp
  have ne1: "self_fuel_ring_materials ?self1 ! k \<noteq> []" unfolding same using ne k by blast
  have nz1: "\<And>Am1 p. self_fuel_ring_prev_dep_mats ?self1 ! k = Some Am1 \<Longrightarrow> dtm1 = Some p \<Longrightarrow> p \<noteq> 0"
    using nz by auto
  have one: "predict_ring E dt dtm1 k ?self1
          = Returned () (?self1\<lparr>self_fuel_ring_current_dep_mats :=
               (self_fuel_ring_current_dep_mats ?self1)
                 [k := Some (predicted_current E dt dtm1 (self_fuel_ring_prev_dep_mats ?self1 ! k)
                       (build_depletion_matrix E (last (self_fuel_ring_materials ?self1 ! k))
                          (self_fuel_ring_flux_spectra ?self1 ! k)))],
             self_fuel_ring_materials := (self_fuel_ring_materials ?self1)
               [k := predicted_ring_materials E dt dtm1 (self_fuel_ring_prev_dep_mats ?self1 ! k)
                       (self_fuel_ring_materials ?self1 ! k)
                       (self_fuel_ring_flux_spectra ?self1 ! k)]\<rparr>)"
    by (rule predict_ring_result [OF rm rf rp rc ne1 shapes nz1])
  have cur': "?cur[k := pc k]
                = map (\<lambda>r. if r < Suc k then pc r else self_fuel_ring_current_dep_mats self ! r) [0 ..< n]"
    using k by (rule map_upt_if_step)
  have mts': "?mts[k := pm k]
                = map (\<lambda>r. if r < Suc k then pm r else self_fuel_ring_materials self ! r) [0 ..< n]"
    using k by (rule map_upt_if_step)
  have one': "predict_ring E dt dtm1 k ?self1
          = Returned () (self\<lparr>self_fuel_ring_current_dep_mats :=
               map (\<lambda>r. if r < Suc k then pc r else self_fuel_ring_current_dep_mats self ! r) [0 ..< n],
             self_fuel_ring_materials :=
               map (\<lambda>r. if r < Suc k then pm r else self_fuel_ring_materials self ! r) [0 ..< n]\<rparr>)"
    unfolding one using k cur' mts' by (simp add: pc_def pm_def)
  show ?case
    by (simp only: upt_Suc_append [OF le0] for_each_append front and_then_def outcome.case
        for_each.simps one')
qed

lemma predict_depletion_result:
  fixes self :: "('mat, 'd, 'm) FuelPin"
  assumes cons: "rings_consistent self"
    and ne: "\<forall>r<nat (num_fuel_rings self). self_fuel_ring_materials self ! r \<noteq> []"
    and shapes: "engine_shapes E" and dt: "0 < dt" and nz: "dtm1 \<noteq> Some 0"
  shows "predict_depletion E dt dtm1 self
         = Returned () (self\<lparr>self_fuel_ring_current_dep_mats :=
               map (\<lambda>r. Some (predicted_current E dt dtm1 (self_fuel_ring_prev_dep_mats self ! r)
                             (build_depletion_matrix E (last (self_fuel_ring_materials self ! r))
                                (self_fuel_ring_flux_spectra self ! r))))
                 [0 ..< nat (num_fuel_rings self)],
             self_fuel_ring_materials :=
               map (\<lambda>r. predicted_ring_materials E dt dtm1 (self_fuel_ring_prev_dep_mats self ! r)
                           (self_fuel_ring_materials self ! r) (self_fuel_ring_flux_spectra self ! r))
                 [0 ..< nat (num_fuel_rings self)]\<rparr>)"
proof -
  have "for_each (predict_ring E dt dtm1) [0 ..< nat (num_fuel_rings self)] self
         = Returned () (self\<lparr>self_fuel_ring_current_dep_mats :=
               map (\<lambda>r. if r < nat (num_fuel_rings self)
                         then Some (predicted_current E dt dtm1 (self_fuel_ring_prev_dep_mats self ! r)
                                (build_depletion_matrix E (last (self_fuel_ring_materials self ! r))
                                   (self_fuel_ring_flux_spectra self ! r)))
                         else self_fuel_ring_current_dep_mats self ! r)
                 [0 ..< nat (num_fuel_rings self)],
             self_fuel_ring_materials :=
               map (\<lambda>r. if r < nat (num_fuel_rings self)
                         then predicted_ring_materials E dt dtm1 (self_fuel_ring_prev_dep_mats self ! r)
                                (self_fuel_ring_materials self ! r) (self_fuel_ring_flux_spectra self ! r)
                         else self_fuel_ring_materials self ! r)
                 [0 ..< nat (num_fuel_rings self)]\<rparr>)"
    by (rule predict_rings_loop [OF cons ne shapes nz le_refl])
  then show ?thesis
    using dt by (simp only: predict_depletion_def py_range_def map_upt_if_all) simp
qed

subsection \<open>Depletion: one pass of the corrector\<close>

lemma py_index_second_last:
  "2 \<le> length xs \<Longrightarrow> py_index xs (- 2) = Inr (xs ! (length xs - 2))"
  by (simp add: py_index_def nat_diff_distrib' of_nat_diff)

lemma correct_finish_result:
  assumes rm: "r < length (self_fuel_ring_materials self)"
    and rp: "r < length (self_fuel_ring_prev_dep_mats self)"
    and rc: "r < length (self_fuel_ring_current_dep_mats self)"
    and ne: "self_fuel_ring_materials self ! r \<noteq> []"
    and len: "length nuclides \<le> length N"
  shows "correct_finish E r A0 nuclides mat_pred N self
         = Returned () (self\<lparr>self_fuel_ring_materials := (self_fuel_ring_materials self)
               [r := butlast (self_fuel_ring_materials self ! r)
                     @ [Material E (positive_densities nuclides N) (temperature E mat_pred)]],
             self_fuel_ring_prev_dep_mats := (self_fuel_ring_prev_dep_mats self)[r := Some A0],
             self_fuel_ring_current_dep_mats := (self_fuel_ring_current_dep_mats self)[r := None]\<rparr>)"
  unfolding correct_finish_def Let_def
  by (simp add: collect_positive_all [OF len] py_index_nat [OF rm] py_store_last [OF ne]
      py_store_nat [OF rp] py_store_nat [OF rc] py_eval_Inr)

lemma correct_ce_li_result:
  assumes rm: "r < length (self_fuel_ring_materials self)"
    and rp: "r < length (self_fuel_ring_prev_dep_mats self)"
    and rc: "r < length (self_fuel_ring_current_dep_mats self)"
    and ne: "self_fuel_ring_materials self ! r \<noteq> []"
    and len: "length nuclides \<le> length N"
    and shapes: "engine_shapes E"
  shows "correct_ce_li E dt r (Some A0) Ap1 nuclides mat_pred N self
         = Returned () (self\<lparr>self_fuel_ring_materials := (self_fuel_ring_materials self)
               [r := butlast (self_fuel_ring_materials self ! r)
                     @ [Material E (positive_densities nuclides
                          (exponential_product E (corrector_F1 E dt A0 Ap1)
                             (exponential_product E (corrector_F2 E dt A0 Ap1) N)))
                          (temperature E mat_pred)]],
             self_fuel_ring_prev_dep_mats := (self_fuel_ring_prev_dep_mats self)[r := Some A0],
             self_fuel_ring_current_dep_mats := (self_fuel_ring_current_dep_mats self)[r := None]\<rparr>)"
proof -
  have len1: "length nuclides \<le> length (exponential_product E (corrector_F1 E dt A0 Ap1)
                             (exponential_product E (corrector_F2 E dt A0 Ap1) N))"
    using len shapes by (simp add: engine_shapes_def)
  show ?thesis
    unfolding correct_ce_li_def Let_def
    by (simp only: option.case corrector_F1_def [symmetric] corrector_F2_def [symmetric]
        correct_finish_result [OF rm rp rc ne len1])
qed

lemma corrector_F3_code:
  "mat_imul E
     (mat_add E
        (mat_add E (mat_rmul E (- dt * dt / (12 * p * (p + dt))) Am1)
                   (mat_rmul E ((5 * p * p + 6 * p * dt + dt * dt) / (12 * p * (p + dt))) A0))
        (mat_rmul E (p / (12 * (p + dt))) Ap1)) dt
   = corrector_F3 E dt p Am1 A0 Ap1"
  by (simp add: corrector_F3_def power2_eq_square mult.assoc)

lemma corrector_F4_code:
  "mat_imul E
     (mat_add E
        (mat_add E (mat_rmul E (- dt * dt / (12 * p * (p + dt))) Am1)
                   (mat_rmul E ((p * p + 2 * p * dt + dt * dt) / (12 * p * (p + dt))) A0))
        (mat_rmul E ((5 * p + 4 * dt) / (12 * (p + dt))) Ap1)) dt
   = corrector_F4 E dt p Am1 A0 Ap1"
  by (simp add: corrector_F4_def power2_eq_square mult.assoc)

lemma correct_le_qi_result:
  assumes rm: "r < length (self_fuel_ring_materials self)"
    and rp: "r < length (self_fuel_ring_prev_dep_mats self)"
    and rc: "r < length (self_fuel_ring_current_dep_mats self)"
    and ne: "self_fuel_ring_materials self ! r \<noteq> []"
    and len: "length nuclides \<le> length N"
    and shapes: "engine_shapes E"
    and p: "p \<noteq> 0" and pd: "p + dt \<noteq> 0"
  shows "correct_le_qi E dt p r Am1 (Some A0) Ap1 nuclides mat_pred N self
         = Returned () (self\<lparr>self_fuel_ring_materials := (self_fuel_ring_materials self)
               [r := butlast (self_fuel_ring_materials self ! r)
                     @ [Material E (positive_densities nuclides
                          (exponential_product E (corrector_F3 E dt p Am1 A0 Ap1)
                             (exponential_product E (corrector_F4 E dt p Am1 A0 Ap1) N)))
                          (temperature E mat_pred)]],
             self_fuel_ring_prev_dep_mats := (self_fuel_ring_prev_dep_mats self)[r := Some A0],
             self_fuel_ring_current_dep_mats := (self_fuel_ring_current_dep_mats self)[r := None]\<rparr>)"
proof -
  have nz1: "12 * p * (p + dt) \<noteq> 0" using p pd by simp
  have nz2: "12 * (p + dt) \<noteq> 0" using pd by simp
  have len1: "length nuclides \<le> length (exponential_product E (corrector_F3 E dt p Am1 A0 Ap1)
                             (exponential_product E (corrector_F4 E dt p Am1 A0 Ap1) N))"
    using len shapes by (simp add: engine_shapes_def)
  show ?thesis
    unfolding correct_le_qi_def Let_def
    by (simp only: py_div_nonzero [OF nz1] py_div_nonzero [OF nz2] py_eval_Inr option.case
        corrector_F3_code corrector_F4_code correct_finish_result [OF rm rp rc ne len1])
qed

lemma correct_ring_result:
  assumes rm: "r < length (self_fuel_ring_materials self)"
    and rf: "r < length (self_fuel_ring_flux_spectra self)"
    and rp: "r < length (self_fuel_ring_prev_dep_mats self)"
    and rc: "r < length (self_fuel_ring_current_dep_mats self)"
    and two: "2 \<le> length (self_fuel_ring_materials self ! r)"
    and cur: "self_fuel_ring_current_dep_mats self ! r = Some A0"
    and shapes: "engine_shapes E"
    and nz: "\<And>p. dtm1 = Some p \<Longrightarrow> p \<noteq> 0 \<and> p + dt \<noteq> 0"
  shows "correct_ring E dt dtm1 r self
         = Returned () (self\<lparr>self_fuel_ring_materials := (self_fuel_ring_materials self)
               [r := corrected_ring_materials E dt dtm1 (self_fuel_ring_prev_dep_mats self ! r) A0
                       (self_fuel_ring_materials self ! r) (self_fuel_ring_flux_spectra self ! r)],
             self_fuel_ring_prev_dep_mats := (self_fuel_ring_prev_dep_mats self)[r := Some A0],
             self_fuel_ring_current_dep_mats := (self_fuel_ring_current_dep_mats self)[r := None]\<rparr>)"
proof -
  let ?mats = "self_fuel_ring_materials self ! r"
  let ?flux = "self_fuel_ring_flux_spectra self ! r"
  let ?prev = "self_fuel_ring_prev_dep_mats self ! r"
  let ?Ap1 = "build_depletion_matrix E (last ?mats) ?flux"
  let ?old = "?mats ! (length ?mats - 2)"
  let ?nucl = "matrix_nuclides E ?Ap1"
  let ?N = "map (atom_density E ?old) ?nucl"
  have ne: "?mats \<noteq> []" using two by auto
  have size: "matrix_size E ?Ap1 = length ?nucl"
    using shapes by (simp add: engine_shapes_def)
  have head: "correct_ring E dt dtm1 r self
               = (case (?prev, dtm1) of
                    (Some Am1, Some p) \<Rightarrow>
                      correct_le_qi E dt p r Am1 (Some A0) ?Ap1 ?nucl (last ?mats) ?N self
                  | _ \<Rightarrow> correct_ce_li E dt r (Some A0) ?Ap1 ?nucl (last ?mats) ?N self)"
    unfolding correct_ring_def Let_def
    by (simp add: py_index_nat [OF rf] py_index_nat [OF rm] py_index_last [OF ne]
        py_index_nat [OF rc] cur py_index_second_last [OF two] py_eval_Inr size
        fill_densities_zeros py_index_nat [OF rp])
  have lenN: "length ?nucl \<le> length ?N" by simp
  show ?thesis
  proof (cases "\<exists>Am1 p. ?prev = Some Am1 \<and> dtm1 = Some p")
    case True
    then obtain Am1 p where ap: "?prev = Some Am1" "dtm1 = Some p" by blast
    have p: "p \<noteq> 0" and pd: "p + dt \<noteq> 0" using nz ap by blast+
    have "correct_ring E dt dtm1 r self
            = correct_le_qi E dt p r Am1 (Some A0) ?Ap1 ?nucl (last ?mats) ?N self"
      unfolding head by (simp add: ap)
    also note correct_le_qi_result [OF rm rp rc ne lenN shapes p pd]
    finally show ?thesis
      by (simp add: corrected_ring_materials_def corrected_vector_def ap Let_def)
  next
    case False
    have "correct_ring E dt dtm1 r self
            = correct_ce_li E dt r (Some A0) ?Ap1 ?nucl (last ?mats) ?N self"
      unfolding head using False by (auto split: option.splits)
    also note correct_ce_li_result [OF rm rp rc ne lenN shapes]
    finally show ?thesis
      using False
      by (auto simp: corrected_ring_materials_def corrected_vector_def Let_def
          split: option.splits)
  qed
qed

subsection \<open>Depletion: the corrector over all rings\<close>

lemma correct_rings_loop:
  fixes self :: "('mat, 'd, 'm) FuelPin" and E :: "('mat, 'm) depletion_lib"
    and dt :: real and dtm1 :: "real option" and A0s :: "'m list"
  defines "n \<equiv> nat (num_fuel_rings self)"
  defines "cm \<equiv> \<lambda>r. corrected_ring_materials E dt dtm1 (self_fuel_ring_prev_dep_mats self ! r)
                       (A0s ! r) (self_fuel_ring_materials self ! r)
                       (self_fuel_ring_flux_spectra self ! r)"
  assumes cons: "rings_consistent self"
    and two: "\<forall>r<n. 2 \<le> length (self_fuel_ring_materials self ! r)"
    and cur: "self_fuel_ring_current_dep_mats self = map Some A0s"
    and shapes: "engine_shapes E"
    and nz: "\<And>p. dtm1 = Some p \<Longrightarrow> p \<noteq> 0 \<and> p + dt \<noteq> 0"
  shows "k \<le> n \<Longrightarrow> for_each (correct_ring E dt dtm1) [0 ..< k] self
         = Returned () (self\<lparr>self_fuel_ring_materials :=
               map (\<lambda>r. if r < k then cm r else self_fuel_ring_materials self ! r) [0 ..< n],
             self_fuel_ring_prev_dep_mats :=
               map (\<lambda>r. if r < k then Some (A0s ! r) else self_fuel_ring_prev_dep_mats self ! r)
                 [0 ..< n],
             self_fuel_ring_current_dep_mats :=
               map (\<lambda>r. if r < k then None else self_fuel_ring_current_dep_mats self ! r)
                 [0 ..< n]\<rparr>)"
proof (induction k)
  case 0
  have l1: "length (self_fuel_ring_current_dep_mats self) = n"
    and l2: "length (self_fuel_ring_materials self) = n"
    and l3: "length (self_fuel_ring_prev_dep_mats self) = n"
    using cons by (simp_all add: rings_consistent_def n_def)
  have m1: "map (\<lambda>r. self_fuel_ring_current_dep_mats self ! r) [0 ..< n]
               = self_fuel_ring_current_dep_mats self"
    unfolding l1 [symmetric] by (rule map_nth)
  have m2: "map (\<lambda>r. self_fuel_ring_materials self ! r) [0 ..< n] = self_fuel_ring_materials self"
    unfolding l2 [symmetric] by (rule map_nth)
  have m3: "map (\<lambda>r. self_fuel_ring_prev_dep_mats self ! r) [0 ..< n]
               = self_fuel_ring_prev_dep_mats self"
    unfolding l3 [symmetric] by (rule map_nth)
  show ?case by (simp add: m1 m2 m3)
next
  case (Suc k)
  let ?mts = "map (\<lambda>r. if r < k then cm r else self_fuel_ring_materials self ! r) [0 ..< n]"
  let ?prv = "map (\<lambda>r. if r < k then Some (A0s ! r) else self_fuel_ring_prev_dep_mats self ! r)
                [0 ..< n]"
  let ?cur = "map (\<lambda>r. if r < k then None else self_fuel_ring_current_dep_mats self ! r) [0 ..< n]"
  let ?self1 = "self\<lparr>self_fuel_ring_materials := ?mts, self_fuel_ring_prev_dep_mats := ?prv,
                      self_fuel_ring_current_dep_mats := ?cur\<rparr>"
  have k: "k < n" using Suc.prems by simp
  have front: "for_each (correct_ring E dt dtm1) [0 ..< k] self = Returned () ?self1"
    using Suc.IH k by simp
  have lens: "length (self_fuel_ring_flux_spectra self) = n"
    "length (self_fuel_ring_current_dep_mats self) = n"
    using cons by (simp_all add: rings_consistent_def n_def)
  have kA: "k < length A0s" using lens(2) k by (simp add: cur)
  have rm: "k < length (self_fuel_ring_materials ?self1)" using k by simp
  have rf: "k < length (self_fuel_ring_flux_spectra ?self1)" using k lens by simp
  have rp: "k < length (self_fuel_ring_prev_dep_mats ?self1)" using k by simp
  have rc: "k < length (self_fuel_ring_current_dep_mats ?self1)" using k by simp
  have same: "self_fuel_ring_materials ?self1 ! k = self_fuel_ring_materials self ! k"
    using k by simp
  have two1: "2 \<le> length (self_fuel_ring_materials ?self1 ! k)"
    unfolding same using two k by blast
  have cur1: "self_fuel_ring_current_dep_mats ?self1 ! k = Some (A0s ! k)"
    using k kA by (simp add: cur)
  have one: "correct_ring E dt dtm1 k ?self1
         = Returned () (?self1\<lparr>self_fuel_ring_materials := (self_fuel_ring_materials ?self1)
               [k := corrected_ring_materials E dt dtm1 (self_fuel_ring_prev_dep_mats ?self1 ! k)
                       (A0s ! k) (self_fuel_ring_materials ?self1 ! k)
                       (self_fuel_ring_flux_spectra ?self1 ! k)],
             self_fuel_ring_prev_dep_mats := (self_fuel_ring_prev_dep_mats ?self1)[k := Some (A0s ! k)],
             self_fuel_ring_current_dep_mats := (self_fuel_ring_current_dep_mats ?self1)[k := None]\<rparr>)"
    by (rule correct_ring_result [OF rm rf rp rc two1 cur1 shapes nz])
  have mts': "?mts[k := cm k]
                = map (\<lambda>r. if r < Suc k then cm r else self_fuel_ring_materials self ! r) [0 ..< n]"
    using k by (rule map_upt_if_step)
  have prv': "?prv[k := Some (A0s ! k)]
                = map (\<lambda>r. if r < Suc k then Some (A0s ! r) else self_fuel_ring_prev_dep_mats self ! r)
                    [0 ..< n]"
    using k by (rule map_upt_if_step)
  have cur': "?cur[k := None]
                = map (\<lambda>r. if r < Suc k then None else self_fuel_ring_current_dep_mats self ! r)
                    [0 ..< n]"
    using k by (rule map_upt_if_step)
  have one': "correct_ring E dt dtm1 k ?self1
         = Returned () (self\<lparr>self_fuel_ring_materials :=
               map (\<lambda>r. if r < Suc k then cm r else self_fuel_ring_materials self ! r) [0 ..< n],
             self_fuel_ring_prev_dep_mats :=
               map (\<lambda>r. if r < Suc k then Some (A0s ! r) else self_fuel_ring_prev_dep_mats self ! r)
                 [0 ..< n],
             self_fuel_ring_current_dep_mats :=
               map (\<lambda>r. if r < Suc k then None else self_fuel_ring_current_dep_mats self ! r)
                 [0 ..< n]\<rparr>)"
    unfolding one using k mts' prv' cur' by (simp add: cm_def)
  show ?case
    by (simp only: upt_Suc_append [OF le0] for_each_append front and_then_def outcome.case
        for_each.simps one')
qed

lemma correct_depletion_result:
  fixes self :: "('mat, 'd, 'm) FuelPin"
  assumes cons: "rings_consistent self"
    and two: "\<forall>r<nat (num_fuel_rings self). 2 \<le> length (self_fuel_ring_materials self ! r)"
    and cur: "self_fuel_ring_current_dep_mats self = map Some A0s"
    and shapes: "engine_shapes E" and dt: "0 < dt"
    and nz: "\<And>p. dtm1 = Some p \<Longrightarrow> p \<noteq> 0 \<and> p + dt \<noteq> 0"
  shows "correct_depletion E dt dtm1 self
         = Returned () (self\<lparr>self_fuel_ring_materials :=
               map (\<lambda>r. corrected_ring_materials E dt dtm1 (self_fuel_ring_prev_dep_mats self ! r)
                           (A0s ! r) (self_fuel_ring_materials self ! r)
                           (self_fuel_ring_flux_spectra self ! r))
                 [0 ..< nat (num_fuel_rings self)],
             self_fuel_ring_prev_dep_mats := self_fuel_ring_current_dep_mats self,
             self_fuel_ring_current_dep_mats :=
               map (\<lambda>r. None) [0 ..< nat (num_fuel_rings self)]\<rparr>)"
proof -
  let ?n = "nat (num_fuel_rings self)"
  have len: "length A0s = ?n"
    using cons cur by (simp add: rings_consistent_def)
  have prev: "map (\<lambda>r. Some (A0s ! r)) [0 ..< ?n] = self_fuel_ring_current_dep_mats self"
  proof -
    have "map (\<lambda>r. Some (A0s ! r)) [0 ..< length A0s]
            = map Some (map (\<lambda>r. A0s ! r) [0 ..< length A0s])"
      by (simp only: map_map comp_def)
    also have "\<dots> = map Some A0s" by (simp only: map_nth)
    finally show ?thesis unfolding cur len [symmetric] .
  qed
  have "for_each (correct_ring E dt dtm1) [0 ..< ?n] self
         = Returned () (self\<lparr>self_fuel_ring_materials :=
               map (\<lambda>r. if r < ?n
                         then corrected_ring_materials E dt dtm1 (self_fuel_ring_prev_dep_mats self ! r)
                                (A0s ! r) (self_fuel_ring_materials self ! r)
                                (self_fuel_ring_flux_spectra self ! r)
                         else self_fuel_ring_materials self ! r) [0 ..< ?n],
             self_fuel_ring_prev_dep_mats :=
               map (\<lambda>r. if r < ?n then Some (A0s ! r) else self_fuel_ring_prev_dep_mats self ! r)
                 [0 ..< ?n],
             self_fuel_ring_current_dep_mats :=
               map (\<lambda>r. if r < ?n then None else self_fuel_ring_current_dep_mats self ! r)
                 [0 ..< ?n]\<rparr>)"
    by (rule correct_rings_loop [OF cons two cur shapes nz le_refl])
  then have "for_each (correct_ring E dt dtm1) [0 ..< ?n] self
         = Returned () (self\<lparr>self_fuel_ring_materials :=
               map (\<lambda>r. corrected_ring_materials E dt dtm1 (self_fuel_ring_prev_dep_mats self ! r)
                           (A0s ! r) (self_fuel_ring_materials self ! r)
                           (self_fuel_ring_flux_spectra self ! r)) [0 ..< ?n],
             self_fuel_ring_prev_dep_mats := self_fuel_ring_current_dep_mats self,
             self_fuel_ring_current_dep_mats := map (\<lambda>r. None) [0 ..< ?n]\<rparr>)"
    by (simp only: map_upt_if_all prev)
  then show ?thesis
    using dt by (simp add: correct_depletion_def py_range_def)
qed

subsection \<open>Depletion: the predictor's schemes\<close>

lemma engine0_shapes: "engine_shapes engine0"
  by (simp add: engine_shapes_def engine0_def)

text \<open>
  C2. Let ring \<open>r\<close> have the previous matrix \<open>Am1\<close> and let \<^verbatim>\<open>dtm1\<close> be given as \<open>p\<close>. On a pin
  whose per-ring lists have one entry per ring and whose rings each hold a material, with
  \<open>dt > 0\<close> and \<open>p \<noteq> 0\<close>, \<^verbatim>\<open>predict_depletion\<close> returns, and the material it appends to
  ring \<open>r\<close> is made of the density vector obtained from the initial densities \<open>N\<close> by the
  exponential action of \<open>F2\<close> followed by that of \<open>F1\<close>, the operators of the
  specification, where \<open>A0\<close> is built from the ring's last material and flux.
\<close>

theorem predict_depletion_le_qi:
  fixes self :: "('mat, 'd, 'm) FuelPin" and E :: "('mat, 'm) depletion_lib"
  assumes "rings_consistent self"
    and "\<forall>i<nat (num_fuel_rings self). self_fuel_ring_materials self ! i \<noteq> []"
    and "engine_shapes E" and "0 < dt" and "p \<noteq> 0"
    and "r < nat (num_fuel_rings self)"
    and "self_fuel_ring_prev_dep_mats self ! r = Some Am1"
  shows "\<exists>s. predict_depletion E dt (Some p) self = Returned () s
           \<and> (let mats = self_fuel_ring_materials self ! r;
                  A0 = build_depletion_matrix E (last mats) (self_fuel_ring_flux_spectra self ! r);
                  mat = clear_all_micro_xs_data E (last mats);
                  nuclides = matrix_nuclides E A0;
                  N = map (atom_density E mat) nuclides;
                  F1 = predictor_F1 E dt p Am1 A0;
                  F2 = predictor_F2 E dt p Am1 A0
              in last (self_fuel_ring_materials s ! r)
                   = Material E (positive_densities nuclides
                        (exponential_product E F1 (exponential_product E F2 N)))
                       (temperature E mat)
                 \<and> F1 = mat_imul E (mat_add E (mat_rmul E (- dt / (12 * p)) Am1)
                                       (mat_rmul E ((6 * p + dt) / (12 * p)) A0)) dt
                 \<and> F2 = mat_imul E (mat_add E (mat_rmul E (- 5 * dt / (12 * p)) Am1)
                                       (mat_rmul E ((6 * p + 5 * dt) / (12 * p)) A0)) dt)"
proof -
  have nz: "Some p \<noteq> Some 0" using assms(5) by simp
  note res = predict_depletion_result [OF assms(1) assms(2) assms(3) assms(4) nz]
  show ?thesis
    unfolding res using assms(6) assms(7)
    by (simp add: predicted_ring_materials_def predicted_vector_def Let_def
        predictor_F1_def predictor_F2_def)
qed

theorem predict_depletion_le_qi_witness:
  "\<exists>s. predict_depletion engine0 1 (Some 1) dpin1 = Returned () s
       \<and> last (self_fuel_ring_materials s ! 0) = ([(''U235'', 1085 / 288)], 900)"
proof -
  have c: "rings_consistent dpin1"
    by (simp add: rings_consistent_def dpin1_def dpin0_def num_fuel_rings_def)
  have ne: "\<forall>i<nat (num_fuel_rings dpin1). self_fuel_ring_materials dpin1 ! i \<noteq> []"
    by (simp add: dpin1_def dpin0_def num_fuel_rings_def)
  have r: "0 < nat (num_fuel_rings dpin1)" by (simp add: dpin1_def dpin0_def num_fuel_rings_def)
  have prev: "self_fuel_ring_prev_dep_mats dpin1 ! 0 = Some (- (1 / 4))"
    by (simp add: dpin1_def dpin0_def)
  have dt: "(0::real) < 1" and p: "(1::real) \<noteq> 0" by simp_all
  from predict_depletion_le_qi [OF c ne engine0_shapes dt p r prev]
  obtain s where s: "predict_depletion engine0 1 (Some 1) dpin1 = Returned () s"
    and m: "(let mats = self_fuel_ring_materials dpin1 ! 0;
                  A0 = build_depletion_matrix engine0 (last mats) (self_fuel_ring_flux_spectra dpin1 ! 0);
                  mat = clear_all_micro_xs_data engine0 (last mats);
                  nuclides = matrix_nuclides engine0 A0;
                  N = map (atom_density engine0 mat) nuclides;
                  F1 = predictor_F1 engine0 1 1 (- (1 / 4)) A0;
                  F2 = predictor_F2 engine0 1 1 (- (1 / 4)) A0
              in last (self_fuel_ring_materials s ! 0)
                   = Material engine0 (positive_densities nuclides
                        (exponential_product engine0 F1 (exponential_product engine0 F2 N)))
                       (temperature engine0 mat))"
    by (auto simp: Let_def)
  have "last (self_fuel_ring_materials s ! 0) = ([(''U235'', 1085 / 288)], 900)"
    using m
    by (simp add: Let_def dpin1_def dpin0_def engine0_def predictor_F1_def predictor_F2_def
        positive_densities_def)
  with s show ?thesis by blast
qed

subsection \<open>Depletion: the corrector's schemes\<close>

text \<open>
  C3. On a pin whose per-ring lists have one entry per ring, whose rings each hold the
  predicted material after at least one earlier material, and whose current matrices are
  the matrices \<open>A0s\<close> the predictor stored, with \<open>dt > 0\<close> (and, when \<^verbatim>\<open>dtm1\<close> is given as
  \<open>p\<close>, \<open>p \<noteq> 0\<close> and \<open>p + dt \<noteq> 0\<close>), \<^verbatim>\<open>correct_depletion\<close> returns. For ring \<open>r\<close> it builds
  \<open>Ap1\<close> from the ring's last (predicted) material and the ring's flux and takes \<open>A0\<close> as
  stored: \<open>A0\<close> is what it leaves as the ring's previous matrix. The material it puts at
  the end of the ring's list is made of the density vector obtained from the initial
  densities by the action of \<open>F2\<close> then \<open>F1\<close> (CE/LI) when the ring has no previous matrix or
  \<^verbatim>\<open>dtm1\<close> is not given, and by the action of \<open>F4\<close> then \<open>F3\<close> (LE/QI) otherwise, with the
  operators of the specification.
\<close>

theorem correct_depletion_schemes:
  fixes self :: "('mat, 'd, 'm) FuelPin" and E :: "('mat, 'm) depletion_lib"
  assumes "rings_consistent self"
    and "\<forall>i<nat (num_fuel_rings self). 2 \<le> length (self_fuel_ring_materials self ! i)"
    and "self_fuel_ring_current_dep_mats self = map Some A0s"
    and "engine_shapes E" and "0 < dt"
    and "\<forall>p. dtm1 = Some p \<longrightarrow> p \<noteq> 0 \<and> p + dt \<noteq> 0"
    and "r < nat (num_fuel_rings self)"
  shows "\<exists>s. correct_depletion E dt dtm1 self = Returned () s
           \<and> (let mats = self_fuel_ring_materials self ! r;
                  prev = self_fuel_ring_prev_dep_mats self ! r;
                  A0 = A0s ! r;
                  Ap1 = build_depletion_matrix E (last mats) (self_fuel_ring_flux_spectra self ! r);
                  nuclides = matrix_nuclides E Ap1;
                  N = map (atom_density E (mats ! (length mats - 2))) nuclides
              in self_fuel_ring_prev_dep_mats s ! r = Some A0
                 \<and> (prev = None \<or> dtm1 = None \<longrightarrow>
                      last (self_fuel_ring_materials s ! r)
                        = Material E (positive_densities nuclides
                            (exponential_product E (corrector_F1 E dt A0 Ap1)
                               (exponential_product E (corrector_F2 E dt A0 Ap1) N)))
                            (temperature E (last mats)))
                 \<and> (\<forall>Am1 p. prev = Some Am1 \<and> dtm1 = Some p \<longrightarrow>
                      last (self_fuel_ring_materials s ! r)
                        = Material E (positive_densities nuclides
                            (exponential_product E (corrector_F3 E dt p Am1 A0 Ap1)
                               (exponential_product E (corrector_F4 E dt p Am1 A0 Ap1) N)))
                            (temperature E (last mats))))"
proof -
  have nz: "\<And>p. dtm1 = Some p \<Longrightarrow> p \<noteq> 0 \<and> p + dt \<noteq> 0" using assms(6) by blast
  note res = correct_depletion_result [OF assms(1) assms(2) assms(3) assms(4) assms(5) nz]
  have len: "length A0s = nat (num_fuel_rings self)"
    using assms(1) assms(3) by (simp add: rings_consistent_def)
  have cur: "self_fuel_ring_current_dep_mats self ! r = Some (A0s ! r)"
    using assms(7) len by (simp add: assms(3))
  define s where "s = self\<lparr>self_fuel_ring_materials :=
               map (\<lambda>r. corrected_ring_materials E dt dtm1 (self_fuel_ring_prev_dep_mats self ! r)
                           (A0s ! r) (self_fuel_ring_materials self ! r)
                           (self_fuel_ring_flux_spectra self ! r))
                 [0 ..< nat (num_fuel_rings self)],
             self_fuel_ring_prev_dep_mats := self_fuel_ring_current_dep_mats self,
             self_fuel_ring_current_dep_mats :=
               map (\<lambda>r. None) [0 ..< nat (num_fuel_rings self)]\<rparr>"
  have ret: "correct_depletion E dt dtm1 self = Returned () s"
    unfolding s_def by (rule res)
  have prev: "self_fuel_ring_prev_dep_mats s ! r = Some (A0s ! r)"
    using cur by (simp add: s_def)
  have mats: "self_fuel_ring_materials s ! r
                = corrected_ring_materials E dt dtm1 (self_fuel_ring_prev_dep_mats self ! r)
                    (A0s ! r) (self_fuel_ring_materials self ! r)
                    (self_fuel_ring_flux_spectra self ! r)"
    using assms(7) by (simp add: s_def)
  show ?thesis
  proof (intro exI [of _ s] conjI)
    show "correct_depletion E dt dtm1 self = Returned () s" by (rule ret)
    show "let mats = self_fuel_ring_materials self ! r;
              prev = self_fuel_ring_prev_dep_mats self ! r;
              A0 = A0s ! r;
              Ap1 = build_depletion_matrix E (last mats) (self_fuel_ring_flux_spectra self ! r);
              nuclides = matrix_nuclides E Ap1;
              N = map (atom_density E (mats ! (length mats - 2))) nuclides
          in self_fuel_ring_prev_dep_mats s ! r = Some A0
             \<and> (prev = None \<or> dtm1 = None \<longrightarrow>
                  last (self_fuel_ring_materials s ! r)
                    = Material E (positive_densities nuclides
                        (exponential_product E (corrector_F1 E dt A0 Ap1)
                           (exponential_product E (corrector_F2 E dt A0 Ap1) N)))
                        (temperature E (last mats)))
             \<and> (\<forall>Am1 p. prev = Some Am1 \<and> dtm1 = Some p \<longrightarrow>
                  last (self_fuel_ring_materials s ! r)
                    = Material E (positive_densities nuclides
                        (exponential_product E (corrector_F3 E dt p Am1 A0 Ap1)
                           (exponential_product E (corrector_F4 E dt p Am1 A0 Ap1) N)))
                        (temperature E (last mats)))"
      unfolding mats prev
      by (auto simp: corrected_ring_materials_def corrected_vector_def Let_def
          split: option.splits)
  qed
qed

theorem correct_depletion_schemes_witness:
  "\<exists>s. correct_depletion engine0 1 None dpin2 = Returned () s
       \<and> self_fuel_ring_prev_dep_mats s ! 0 = Some (- (1 / 2))
       \<and> last (self_fuel_ring_materials s ! 0) = ([(''U235'', 9 / 2)], 900)"
proof -
  have c: "rings_consistent dpin2"
    by (simp add: rings_consistent_def dpin2_def dpin0_def num_fuel_rings_def)
  have two: "\<forall>i<nat (num_fuel_rings dpin2). 2 \<le> length (self_fuel_ring_materials dpin2 ! i)"
    by (simp add: dpin2_def dpin0_def num_fuel_rings_def)
  have cur: "self_fuel_ring_current_dep_mats dpin2 = map Some [- (1 / 2)]"
    by (simp add: dpin2_def dpin0_def)
  have r: "0 < nat (num_fuel_rings dpin2)" by (simp add: dpin2_def dpin0_def num_fuel_rings_def)
  have dt: "(0::real) < 1" by simp
  have nz: "\<forall>p. (None :: real option) = Some p \<longrightarrow> p \<noteq> 0 \<and> p + 1 \<noteq> 0" by simp
  from correct_depletion_schemes [OF c two cur engine0_shapes dt nz r]
  obtain s where s: "correct_depletion engine0 1 None dpin2 = Returned () s"
    and p: "self_fuel_ring_prev_dep_mats s ! 0 = Some ([- (1 / 2)] ! 0)"
    and m: "last (self_fuel_ring_materials s ! 0)
              = Material engine0 (positive_densities
                   (matrix_nuclides engine0 (build_depletion_matrix engine0
                      (last (self_fuel_ring_materials dpin2 ! 0)) (self_fuel_ring_flux_spectra dpin2 ! 0)))
                  (exponential_product engine0
                     (corrector_F1 engine0 1 ([- (1 / 2)] ! 0) (build_depletion_matrix engine0
                        (last (self_fuel_ring_materials dpin2 ! 0)) (self_fuel_ring_flux_spectra dpin2 ! 0)))
                     (exponential_product engine0
                        (corrector_F2 engine0 1 ([- (1 / 2)] ! 0) (build_depletion_matrix engine0
                           (last (self_fuel_ring_materials dpin2 ! 0)) (self_fuel_ring_flux_spectra dpin2 ! 0)))
                        (map (atom_density engine0 (self_fuel_ring_materials dpin2 ! 0
                               ! (length (self_fuel_ring_materials dpin2 ! 0) - 2)))
                           (matrix_nuclides engine0 (build_depletion_matrix engine0
                              (last (self_fuel_ring_materials dpin2 ! 0))
                              (self_fuel_ring_flux_spectra dpin2 ! 0)))))))
                  (temperature engine0 (last (self_fuel_ring_materials dpin2 ! 0)))"
    by (auto simp: Let_def)
  have "last (self_fuel_ring_materials s ! 0) = ([(''U235'', 9 / 2)], 900)"
    using m
    by (simp add: dpin2_def dpin0_def engine0_def corrector_F1_def corrector_F2_def
        positive_densities_def)
  with s p show ?thesis by auto
qed

subsection \<open>Depletion: the corrector's source and the rotation of the matrices\<close>

lemma py_eval_prev_kept:
  assumes "self_fuel_ring_prev_dep_mats s = P"
    and "\<And>v. self_fuel_ring_prev_dep_mats (state_of (k v)) = P"
  shows "self_fuel_ring_prev_dep_mats (state_of (py_eval x s k)) = P"
  using assms by (cases x) (simp_all add: py_eval_def)

lemma predict_finish_prev_kept:
  "self_fuel_ring_prev_dep_mats s = P \<Longrightarrow>
   self_fuel_ring_prev_dep_mats (state_of (predict_finish E r nuclides mat N s)) = P"
  unfolding predict_finish_def
  by (intro py_eval_prev_kept) simp_all

lemma predict_ce_li_prev_kept:
  "self_fuel_ring_prev_dep_mats s = P \<Longrightarrow>
   self_fuel_ring_prev_dep_mats (state_of (predict_ce_li E dt r A0 nuclides mat N s)) = P"
  unfolding predict_ce_li_def Let_def
  by (rule predict_finish_prev_kept) simp

lemma predict_le_qi_prev_kept:
  "self_fuel_ring_prev_dep_mats s = P \<Longrightarrow>
   self_fuel_ring_prev_dep_mats (state_of (predict_le_qi E dt p r Am1 A0 nuclides mat N s)) = P"
  unfolding predict_le_qi_def Let_def
  by (intro py_eval_prev_kept predict_finish_prev_kept)

lemma predict_branch_prev_kept:
  assumes "self_fuel_ring_prev_dep_mats s = P"
  shows "self_fuel_ring_prev_dep_mats
           (state_of (case (prev, dtm1) of
                        (Some Am1, Some p) \<Rightarrow> predict_le_qi E dt p r Am1 A0 nuclides mat N s
                      | _ \<Rightarrow> predict_ce_li E dt r A0 nuclides mat N s)) = P"
  using assms
  by (cases prev; cases dtm1) (simp_all add: predict_ce_li_prev_kept predict_le_qi_prev_kept)

lemma predict_ring_prev_kept:
  "self_fuel_ring_prev_dep_mats (state_of (predict_ring E dt dtm1 r s))
     = self_fuel_ring_prev_dep_mats s"
  unfolding predict_ring_def Let_def
  by (intro py_eval_prev_kept predict_branch_prev_kept) simp_all

lemma for_each_prev_kept:
  assumes "\<And>x s. self_fuel_ring_prev_dep_mats (state_of (body x s)) = self_fuel_ring_prev_dep_mats s"
  shows "self_fuel_ring_prev_dep_mats (state_of (for_each body xs s)) = self_fuel_ring_prev_dep_mats s"
proof (induction xs arbitrary: s)
  case Nil
  show ?case by simp
next
  case (Cons x xs)
  show ?case
  proof (cases "body x s")
    case (Returned u s')
    then have "self_fuel_ring_prev_dep_mats s' = self_fuel_ring_prev_dep_mats s"
      using assms [of x s] by simp
    then show ?thesis using Returned Cons.IH [of s'] by simp
  next
    case (Raised e s')
    then show ?thesis using assms [of x s] by simp
  qed
qed

lemma predict_depletion_prev_kept:
  "self_fuel_ring_prev_dep_mats (state_of (predict_depletion E dt dtm1 s))
     = self_fuel_ring_prev_dep_mats s"
  unfolding predict_depletion_def
  by (simp add: for_each_prev_kept [of "predict_ring E dt dtm1", OF predict_ring_prev_kept])

text \<open>
  C1. On a pin whose per-ring lists have one entry per ring, whose rings each hold the
  predicted material after at least one earlier material, and whose current matrices are
  the matrices \<open>A0s\<close> the predictor stored, with \<open>dt > 0\<close> (and, when \<^verbatim>\<open>dtm1\<close> is given as
  \<open>p\<close>, \<open>p \<noteq> 0\<close> and \<open>p + dt \<noteq> 0\<close>), \<^verbatim>\<open>correct_depletion\<close> returns, and for every ring \<open>r\<close>:
  the density vector it starts from holds the atom densities of the material two entries
  back from the end of the ring's list, in the order of the nuclides of \<open>Ap1\<close>, and the
  material it writes is made of the corrector's vector computed from that start; the
  ring's previous matrix afterwards is the current matrix it had before the call, and its
  current matrix is \<^verbatim>\<open>None\<close>. The predictor, whatever it is called with, leaves every
  previous matrix as it was, so the corrector's step is the only rotation.
\<close>

theorem correct_depletion_source_and_rotation:
  fixes self :: "('mat, 'd, 'm) FuelPin" and E :: "('mat, 'm) depletion_lib"
    and q :: "('mat, 'd, 'm) FuelPin"
  assumes "rings_consistent self"
    and "\<forall>i<nat (num_fuel_rings self). 2 \<le> length (self_fuel_ring_materials self ! i)"
    and "self_fuel_ring_current_dep_mats self = map Some A0s"
    and "engine_shapes E" and "0 < dt"
    and "\<forall>p. dtm1 = Some p \<longrightarrow> p \<noteq> 0 \<and> p + dt \<noteq> 0"
  shows "\<exists>s. correct_depletion E dt dtm1 self = Returned () s
           \<and> (\<forall>r<nat (num_fuel_rings self).
                 (let mats = self_fuel_ring_materials self ! r;
                      mat_pred = mats ! (length mats - 1);
                      mat_old = mats ! (length mats - 2);
                      Ap1 = build_depletion_matrix E mat_pred (self_fuel_ring_flux_spectra self ! r);
                      nuclides = matrix_nuclides E Ap1;
                      N = map (atom_density E mat_old) nuclides
                  in last (self_fuel_ring_materials s ! r)
                       = Material E (positive_densities nuclides
                           (corrected_vector E dt dtm1 (self_fuel_ring_prev_dep_mats self ! r)
                              (A0s ! r) Ap1 N))
                           (temperature E mat_pred))
                 \<and> self_fuel_ring_prev_dep_mats s ! r = self_fuel_ring_current_dep_mats self ! r
                 \<and> self_fuel_ring_prev_dep_mats s ! r = Some (A0s ! r)
                 \<and> self_fuel_ring_current_dep_mats s ! r = None)
           \<and> self_fuel_ring_prev_dep_mats (state_of (predict_depletion E dt' dtm1' q))
                = self_fuel_ring_prev_dep_mats q"
proof -
  have nz: "\<And>p. dtm1 = Some p \<Longrightarrow> p \<noteq> 0 \<and> p + dt \<noteq> 0" using assms(6) by blast
  note res = correct_depletion_result [OF assms(1) assms(2) assms(3) assms(4) assms(5) nz]
  have len: "length A0s = nat (num_fuel_rings self)"
    using assms(1) assms(3) by (simp add: rings_consistent_def)
  define s where "s = self\<lparr>self_fuel_ring_materials :=
               map (\<lambda>r. corrected_ring_materials E dt dtm1 (self_fuel_ring_prev_dep_mats self ! r)
                           (A0s ! r) (self_fuel_ring_materials self ! r)
                           (self_fuel_ring_flux_spectra self ! r))
                 [0 ..< nat (num_fuel_rings self)],
             self_fuel_ring_prev_dep_mats := self_fuel_ring_current_dep_mats self,
             self_fuel_ring_current_dep_mats :=
               map (\<lambda>r. None) [0 ..< nat (num_fuel_rings self)]\<rparr>"
  have ret: "correct_depletion E dt dtm1 self = Returned () s"
    unfolding s_def by (rule res)
  have ring: "(let mats = self_fuel_ring_materials self ! r;
                      mat_pred = mats ! (length mats - 1);
                      mat_old = mats ! (length mats - 2);
                      Ap1 = build_depletion_matrix E mat_pred (self_fuel_ring_flux_spectra self ! r);
                      nuclides = matrix_nuclides E Ap1;
                      N = map (atom_density E mat_old) nuclides
                  in last (self_fuel_ring_materials s ! r)
                       = Material E (positive_densities nuclides
                           (corrected_vector E dt dtm1 (self_fuel_ring_prev_dep_mats self ! r)
                              (A0s ! r) Ap1 N))
                           (temperature E mat_pred))
                 \<and> self_fuel_ring_prev_dep_mats s ! r = self_fuel_ring_current_dep_mats self ! r
                 \<and> self_fuel_ring_prev_dep_mats s ! r = Some (A0s ! r)
                 \<and> self_fuel_ring_current_dep_mats s ! r = None"
    if r: "r < nat (num_fuel_rings self)" for r
  proof -
    have ne: "self_fuel_ring_materials self ! r \<noteq> []" using assms(2) r by fastforce
    have lst: "self_fuel_ring_materials self ! r ! (length (self_fuel_ring_materials self ! r) - 1)
                 = last (self_fuel_ring_materials self ! r)"
      using ne by (simp add: last_conv_nth)
    have cur: "self_fuel_ring_current_dep_mats self ! r = Some (A0s ! r)"
      using r len by (simp add: assms(3))
    have mats: "self_fuel_ring_materials s ! r
                = corrected_ring_materials E dt dtm1 (self_fuel_ring_prev_dep_mats self ! r)
                    (A0s ! r) (self_fuel_ring_materials self ! r)
                    (self_fuel_ring_flux_spectra self ! r)"
      using r by (simp add: s_def)
    have p: "self_fuel_ring_prev_dep_mats s ! r = self_fuel_ring_current_dep_mats self ! r"
      by (simp add: s_def)
    have c: "self_fuel_ring_current_dep_mats s ! r = None"
      using r by (simp add: s_def)
    show ?thesis
      unfolding mats p c cur Let_def lst
      by (simp add: corrected_ring_materials_def Let_def)
  qed
  show ?thesis
    using ret ring predict_depletion_prev_kept [of E dt' dtm1' q] by blast
qed

theorem correct_depletion_source_and_rotation_witness:
  "\<exists>s. correct_depletion engine0 1 None dpin2 = Returned () s
       \<and> last (self_fuel_ring_materials s ! 0) = ([(''U235'', 9 / 2)], 900)
       \<and> self_fuel_ring_prev_dep_mats s ! 0 = Some (- (1 / 2))
       \<and> self_fuel_ring_current_dep_mats s ! 0 = None"
proof -
  have c: "rings_consistent dpin2"
    by (simp add: rings_consistent_def dpin2_def dpin0_def num_fuel_rings_def)
  have two: "\<forall>i<nat (num_fuel_rings dpin2). 2 \<le> length (self_fuel_ring_materials dpin2 ! i)"
    by (simp add: dpin2_def dpin0_def num_fuel_rings_def)
  have cur: "self_fuel_ring_current_dep_mats dpin2 = map Some [- (1 / 2)]"
    by (simp add: dpin2_def dpin0_def)
  have r: "0 < nat (num_fuel_rings dpin2)" by (simp add: dpin2_def dpin0_def num_fuel_rings_def)
  have dt: "(0::real) < 1" by simp
  have nz: "\<forall>p. (None :: real option) = Some p \<longrightarrow> p \<noteq> 0 \<and> p + 1 \<noteq> 0" by simp
  from correct_depletion_source_and_rotation [OF c two cur engine0_shapes dt nz] r
  obtain s where s: "correct_depletion engine0 1 None dpin2 = Returned () s"
    and m: "(let mats = self_fuel_ring_materials dpin2 ! 0;
                      mat_pred = mats ! (length mats - 1);
                      mat_old = mats ! (length mats - 2);
                      Ap1 = build_depletion_matrix engine0 mat_pred (self_fuel_ring_flux_spectra dpin2 ! 0);
                      nuclides = matrix_nuclides engine0 Ap1;
                      N = map (atom_density engine0 mat_old) nuclides
                  in last (self_fuel_ring_materials s ! 0)
                       = Material engine0 (positive_densities nuclides
                           (corrected_vector engine0 1 None (self_fuel_ring_prev_dep_mats dpin2 ! 0)
                              ([- (1 / 2)] ! 0) Ap1 N))
                           (temperature engine0 mat_pred))"
    and p: "self_fuel_ring_prev_dep_mats s ! 0 = Some ([- (1 / 2)] ! 0)"
    and n: "self_fuel_ring_current_dep_mats s ! 0 = None"
    by blast
  have "last (self_fuel_ring_materials s ! 0) = ([(''U235'', 9 / 2)], 900)"
    using m
    by (simp add: Let_def dpin2_def dpin0_def engine0_def corrected_vector_def corrector_F1_def
        corrector_F2_def positive_densities_def)
  with s p n show ?thesis by auto
qed

subsection \<open>Depletion: the history of compositions\<close>








subsection \<open>Depletion: the predictor's first scheme and the stored matrix\<close>




end
